theory Spec2Isabelle
  imports Complex_Main "HOL-Library.Sublist" "HOL-Library.AList"
begin

section \<open>Data model\<close>

text \<open>
  The exceptions that occur in the modelled code. \<open>Raised\<close> stands for any other exception
  that code supplied by the caller raises. \<open>WhileHandling w e\<close> is the exception \<open>w\<close> raised
  by the exit of a \<^verbatim>\<open>with\<close> block while the exception \<open>e\<close> was leaving it: \<open>w\<close> propagates
  and carries \<open>e\<close> as its context.
\<close>

datatype py_exc =
  AttributeError | UnicodeDecodeError | UserWarning | KeyError | TypeError | ValueError
  | Raised string | WhileHandling py_exc py_exc

text \<open>
  A function-profile record is the dictionary built by the profiling wrapper in
  \<^verbatim>\<open>utils.py\<close>: \<^verbatim>\<open>{'func_name': ..., 'energy_j': ..., 'elapsed_ns': ...}\<close>.
  The elapsed time is a Python integer. The energy is a Python float. Floats are kept
  abstract: they are the values of a type \<open>'f\<close> with a zero and an addition, of which no law
  is assumed, so that every result holds for the rounding addition of the machine.
\<close>

record 'f prec =
  func_name :: string
  energy_j :: 'f
  elapsed_ns :: int

text \<open>
  What the record store holds is a parsed JSON value. It is a JSON object, of which only the
  entries under the three keys of a record matter (\<open>None\<close> for a key that is missing; an
  entry that is present is taken to have the JSON type that the profiler writes), or a JSON
  value that is not an object.
\<close>

datatype 'f item = Obj "string option" "'f option" "int option" | NonObj

definition item_of :: "'f prec \<Rightarrow> 'f item" where
  "item_of r = Obj (Some (func_name r)) (Some (energy_j r)) (Some (elapsed_ns r))"

text \<open>Python's \<^verbatim>\<open>sum(xs)\<close>: the additions are done from the left, starting at \<^verbatim>\<open>0\<close>.\<close>

definition py_sum :: "'a::{zero,plus} list \<Rightarrow> 'a" where
  "py_sum xs = foldl (+) 0 xs"

section \<open>Scoped energy measurement (\<^verbatim>\<open>sensors.py\<close>, class \<^verbatim>\<open>EnergySensor\<close>)\<close>

text \<open>
  The two float operations of \<^verbatim>\<open>__exit__\<close> besides the addition: the comparison
  \<^verbatim>\<open>x == 0.0\<close> and the quotient \<^verbatim>\<open>x / 1e6\<close>. They are parameters of the model.
\<close>

record 'f float_ops =
  is_zero :: "'f \<Rightarrow> bool"
  div_1e6 :: "'f \<Rightarrow> 'f"

text \<open>
  The measurement object of the RAPL library is an external collaborator. After \<^verbatim>\<open>end()\<close>
  its \<^verbatim>\<open>result\<close> is either missing or carries two optional lists of readings in
  micro-joules, \<^verbatim>\<open>pkg\<close> (processor packages) and \<^verbatim>\<open>dram\<close> (memory controllers).
  The readings are floats, so the \<^verbatim>\<open>TypeError\<close> handler around the two sums, which
  only fires on an element that cannot be added, has no branch here.
\<close>

record 'f rapl_result =
  pkg :: "'f list option"
  dram :: "'f list option"

text \<open>\<^verbatim>\<open>getattr(result, 'pkg', []) or []\<close>: a missing list counts as the empty list.\<close>

definition or_empty :: "'a list option \<Rightarrow> 'a list" where
  "or_empty v = (case v of None \<Rightarrow> [] | Some xs \<Rightarrow> xs)"

text \<open>
  \<^verbatim>\<open>warnings.warn\<close> acts as the warning filter of the process decides: the warning is
  shown, it is ignored, or it is raised as an exception.
\<close>

datatype warn_action = WarnShow | WarnIgnore | WarnError

record 'f sensor_exit =
  meas_energy_j :: 'f
  zero_warning :: bool

text \<open>
  \<^verbatim>\<open>EnergySensor.__exit__\<close>: the total of both domains; when the total compares equal to
  \<^verbatim>\<open>0.0\<close>, the call of \<^verbatim>\<open>warnings.warn\<close>, which raises under a filter that turns
  warnings into errors, before the figure is stored; then the stored figure
  \<^verbatim>\<open>total_uj / 1e6\<close>. The method returns \<^verbatim>\<open>None\<close>, so a failure raised inside the
  \<^verbatim>\<open>with\<close> block is not suppressed. The flag of the result says that a warning was shown.
\<close>

definition EnergySensor_exit ::
  "('f::{zero,plus}) float_ops \<Rightarrow> warn_action \<Rightarrow> 'f rapl_result option \<Rightarrow> py_exc + 'f sensor_exit" where
  "EnergySensor_exit ops action res =
     (let total_uj = (case res of
                        None \<Rightarrow> 0
                      | Some r \<Rightarrow> py_sum (or_empty (pkg r)) + py_sum (or_empty (dram r)))
      in if is_zero ops total_uj \<and> action = WarnError then Inl UserWarning
         else Inr \<lparr>meas_energy_j = div_1e6 ops total_uj,
                   zero_warning = (is_zero ops total_uj \<and> action = WarnShow)\<rparr>)"

section \<open>Function profiler (\<^verbatim>\<open>utils.py\<close>, class \<^verbatim>\<open>FunctionProfiler\<close>)\<close>

subsection \<open>The record store\<close>

text \<open>
  The store has two parts. The in-process part is the list object bound to the class attribute
  \<^verbatim>\<open>_records\<close>; it is mutated in place by \<^verbatim>\<open>append\<close> and \<^verbatim>\<open>clear\<close>, while
  \<^verbatim>\<open>get_records\<close> builds a new list object with \<^verbatim>\<open>list(cls._records)\<close>. List objects
  therefore live in a heap under addresses: \<open>ClassRecords\<close> for the class attribute and
  \<open>Fresh n\<close> for the \<open>n\<close>-th list allocated later.

  The shared part is the file system: a directory path has a listing of files. A file has a
  name and a content, which says what reading it does: \<open>Unreadable\<close> when opening it raises
  \<^verbatim>\<open>IOError\<close> or \<^verbatim>\<open>json.load\<close> raises \<^verbatim>\<open>JSONDecodeError\<close>; \<open>Undecodable\<close> when its
  bytes are not valid text, so that \<^verbatim>\<open>json.load\<close> raises \<^verbatim>\<open>UnicodeDecodeError\<close>;
  \<open>Parsed v\<close> when \<^verbatim>\<open>json.load\<close> returns the value \<open>v\<close>.

  \<^verbatim>\<open>glob.glob\<close> is a library function. Its expansion of the directory part of a pattern
  is a parameter of the store: \<open>glob_dirs s p\<close> lists the directories that the path \<open>p\<close>
  selects when it is read as a pattern (the directory \<open>p\<close> itself when \<open>p\<close> holds no
  wildcard; other directories when it does).

  The process-wide configuration is the environment variable
  \<^verbatim>\<open>ENERGYTEST_PROFILE_DIR\<close>, absent or set to a string. The store also records whether
  \<^verbatim>\<open>energy_sensor_lock\<close> is held, and the warnings shown or printed so far.
\<close>

datatype addr = ClassRecords | Fresh nat

datatype 'f content = Unreadable | Undecodable | Parsed "'f item"

record 'f pfile =
  fname :: string
  content :: "'f content"

datatype message = ZeroEnergyWarning string | WriteFailedWarning string string

record 'f world =
  heap :: "addr \<Rightarrow> 'f item list"
  fresh :: nat
  environ :: "string option"
  dirs :: "string \<Rightarrow> 'f pfile list"
  glob_dirs :: "string \<Rightarrow> string list"
  lock_held :: bool
  messages :: "message list"

text \<open>\<^verbatim>\<open>_get_profile_dir\<close> followed by the test \<^verbatim>\<open>if profile_dir:\<close>, which an absent
  variable and the empty string both fail.\<close>

definition get_profile_dir :: "'f world \<Rightarrow> string option" where
  "get_profile_dir s = environ s"

definition truthy :: "string option \<Rightarrow> bool" where
  "truthy v = (case v of None \<Rightarrow> False | Some d \<Rightarrow> d \<noteq> [])"

text \<open>
  \<^verbatim>\<open>glob.glob(os.path.join(profile_dir, "*.json"))\<close>: in every directory that the path
  selects, the entries whose name ends in \<^verbatim>\<open>.json\<close> and does not start with a dot (a
  pattern that does not start with a dot never matches a hidden file). The result is a list
  of paths, here pairs of a directory and a file.
\<close>

definition matches_json :: "string \<Rightarrow> bool" where
  "matches_json n = (suffix ''.json'' n \<and> (case n of [] \<Rightarrow> False | c # _ \<Rightarrow> c \<noteq> CHR ''.''))"

definition glob_json :: "'f world \<Rightarrow> string \<Rightarrow> (string \<times> 'f pfile) list" where
  "glob_json s profile_dir =
     concat (map (\<lambda>d. map (Pair d) (filter (\<lambda>f. matches_json (fname f)) (dirs s d)))
               (glob_dirs s profile_dir))"

subsection \<open>File names of records\<close>

text \<open>Python's \<^verbatim>\<open>str\<close> of a non-negative integer.\<close>

definition digit_char :: "nat \<Rightarrow> char" where
  "digit_char d = ''0123456789'' ! d"

fun str_nat :: "nat \<Rightarrow> string" where
  "str_nat n = (if n < 10 then [digit_char n] else str_nat (n div 10) @ [digit_char (n mod 10)])"

declare str_nat.simps [simp del]

text \<open>
  \<^verbatim>\<open>f"{time.time():.6f}".replace('.', '')\<close>: the clock reading rounded to a whole number
  \<open>us\<close> of microseconds, printed as the seconds followed by exactly six digits.
\<close>

definition pad6 :: "nat \<Rightarrow> string" where
  "pad6 m = replicate (6 - length (str_nat m)) CHR ''0'' @ str_nat m"

definition ts_digits :: "nat \<Rightarrow> string" where
  "ts_digits us = str_nat (us div 1000000) @ pad6 (us mod 1000000)"

definition record_file_name :: "nat \<Rightarrow> nat \<Rightarrow> string" where
  "record_file_name p us = ''prof_'' @ str_nat p @ ''_'' @ ts_digits us @ ''.json''"

subsection \<open>Writing and removing files\<close>

text \<open>
  \<^verbatim>\<open>open(fpath, 'w')\<close> followed by \<^verbatim>\<open>json.dump\<close>, inside
  \<^verbatim>\<open>try ... except IOError\<close>, whose handler prints a warning. Whether the write succeeds
  is decided by the environment: opening may raise (the directory is missing or not writable),
  and the dump may raise after the file has been created or truncated, which leaves a file
  that does not parse. The file is written in the configured directory itself: \<^verbatim>\<open>open\<close>
  does not expand wildcards.
\<close>

datatype write_outcome = WriteOk | OpenRaises | DumpRaises

definition put_file :: "string \<Rightarrow> 'f content \<Rightarrow> 'f pfile list \<Rightarrow> 'f pfile list" where
  "put_file n c fs =
     (if n \<in> set (map fname fs)
      then map (\<lambda>f. if fname f = n then f\<lparr>content := c\<rparr> else f) fs
      else fs @ [\<lparr>fname = n, content = c\<rparr>])"

definition write_record :: "write_outcome \<Rightarrow> string \<Rightarrow> string \<Rightarrow> 'f prec \<Rightarrow> 'f world \<Rightarrow> 'f world" where
  "write_record w d n r s =
     (case w of
        WriteOk \<Rightarrow> s\<lparr>dirs := (dirs s)(d := put_file n (Parsed (item_of r)) (dirs s d))\<rparr>
      | DumpRaises \<Rightarrow> s\<lparr>dirs := (dirs s)(d := put_file n Unreadable (dirs s d)),
                         messages := messages s @ [WriteFailedWarning d n]\<rparr>
      | OpenRaises \<Rightarrow> s\<lparr>messages := messages s @ [WriteFailedWarning d n]\<rparr>)"

text \<open>\<^verbatim>\<open>os.remove(fpath)\<close> inside \<^verbatim>\<open>try ... except OSError: continue\<close>. The
  environment decides for which files, given by directory and name, the removal raises.\<close>

definition try_remove ::
  "(string \<Rightarrow> string \<Rightarrow> bool) \<Rightarrow> string \<times> 'f pfile \<Rightarrow> 'f world \<Rightarrow> 'f world" where
  "try_remove raises df s =
     (if raises (fst df) (fname (snd df)) then s
      else s\<lparr>dirs := (dirs s)(fst df :=
                 filter (\<lambda>g. fname g \<noteq> fname (snd df)) (dirs s (fst df)))\<rparr>)"

subsection \<open>The wrapper made by \<^verbatim>\<open>FunctionProfiler.profile\<close>\<close>

text \<open>
  What the environment supplies to one call of a wrapper: the RAPL result of the capture, the
  action of the warning filter, the two readings of \<^verbatim>\<open>time.perf_counter_ns()\<close>, the
  process id, the reading of \<^verbatim>\<open>time.time()\<close> in microseconds and the outcome of the
  file write.
\<close>

record 'f call_env =
  rapl :: "'f rapl_result option"
  warn :: warn_action
  start_ns :: int
  end_ns :: int
  env_pid :: nat
  now_us :: nat
  write_res :: write_outcome

text \<open>The block after the record has been built: one of the two sinks, chosen by the
  configuration as it is at that moment.\<close>

definition emit_record :: "'f call_env \<Rightarrow> 'f prec \<Rightarrow> 'f world \<Rightarrow> 'f world" where
  "emit_record env r s =
     (let profile_dir = get_profile_dir s in
      if truthy profile_dir
      then write_record (write_res env) (the profile_dir)
             (record_file_name (env_pid env) (now_us env)) r s
      else s\<lparr>heap := (heap s)(ClassRecords := heap s ClassRecords @ [item_of r])\<rparr>)"

text \<open>The warning that the exit of the capture showed, if any, reaches the output.\<close>

definition show_warning :: "string \<Rightarrow> 'f sensor_exit \<Rightarrow> 'f world \<Rightarrow> 'f world" where
  "show_warning label m s =
     (if zero_warning m then s\<lparr>messages := messages s @ [ZeroEnergyWarning label]\<rparr> else s)"

text \<open>
  A callable has a \<^verbatim>\<open>__name__\<close> or has none (a \<^verbatim>\<open>functools.partial\<close> object, an
  instance with \<^verbatim>\<open>__call__\<close>), and a body, which takes its arguments and the store and
  either returns a value, or raises, or never returns (the result \<open>None\<close>); it may itself
  change the store, through worker processes that write record files or by calling other
  code.

  The wrapper takes \<^verbatim>\<open>energy_sensor_lock\<close>, which is not reentrant: a call made while
  the lock is held, that is from inside the body of another profiled call, never returns.
  With the lock taken it reads \<^verbatim>\<open>func.__name__\<close>, which raises
  \<^verbatim>\<open>AttributeError\<close> for a callable without a name, before the body runs. The body runs
  with the lock held. The exit of the capture runs whether the body returned or raised, and
  an exception raised by the exit replaces the outcome of the body (a failure of the body
  becomes its context). The lock is released on
  every path that leaves the \<^verbatim>\<open>with\<close> block. When the body raises, the lines that build
  and emit the record are not reached. Calls are taken one at a time: other threads are not
  modelled.
\<close>

definition profile ::
  "('f::{zero,plus}) float_ops \<Rightarrow> string option \<Rightarrow>
   ('a \<Rightarrow> 'f world \<Rightarrow> ((py_exc + 'r) \<times> 'f world) option) \<Rightarrow>
   'f call_env \<Rightarrow> 'a \<Rightarrow> 'f world \<Rightarrow> ((py_exc + 'r) \<times> 'f world) option" where
  "profile ops name func env args s =
     (if lock_held s then None
      else case name of
             None \<Rightarrow> Some (Inl AttributeError, s)
           | Some label \<Rightarrow>
               (case func args (s\<lparr>lock_held := True\<rparr>) of
                  None \<Rightarrow> None
                | Some (outcome, s1) \<Rightarrow>
                    (case EnergySensor_exit ops (warn env) (rapl env) of
                       Inl w \<Rightarrow>
                         Some (Inl (case outcome of Inl exc \<Rightarrow> WhileHandling w exc | Inr _ \<Rightarrow> w),
                               s1\<lparr>lock_held := False\<rparr>)
                     | Inr m \<Rightarrow>
                         (let s2 = show_warning label m (s1\<lparr>lock_held := False\<rparr>)
                          in case outcome of
                               Inl exc \<Rightarrow> Some (Inl exc, s2)
                             | Inr result \<Rightarrow>
                                 (let energy = meas_energy_j m;
                                      record = \<lparr>func_name = label, energy_j = energy,
                                                elapsed_ns = end_ns env - start_ns env\<rparr>
                                  in Some (Inr result, emit_record env record s2))))))"

subsection \<open>Harvest and clear\<close>

text \<open>
  \<^verbatim>\<open>get_records\<close>: a new list object initialised with the elements of the class list,
  then the loop over the matching files. A file whose reading raises \<^verbatim>\<open>IOError\<close> or
  \<^verbatim>\<open>JSONDecodeError\<close> is skipped; \<^verbatim>\<open>UnicodeDecodeError\<close> is not among the exceptions
  caught and leaves the loop and the function; a value that \<^verbatim>\<open>json.load\<close> returns is
  appended to the new object, whatever it is. The address of the new object is returned.
\<close>

definition append_at :: "addr \<Rightarrow> 'f item \<Rightarrow> 'f world \<Rightarrow> 'f world" where
  "append_at a v s = s\<lparr>heap := (heap s)(a := heap s a @ [v])\<rparr>"

fun load_files :: "addr \<Rightarrow> (string \<times> 'f pfile) list \<Rightarrow> 'f world \<Rightarrow> (py_exc + unit) \<times> 'f world" where
  "load_files a [] s = (Inr (), s)"
| "load_files a (df # rest) s =
     (case content (snd df) of
        Unreadable \<Rightarrow> load_files a rest s
      | Undecodable \<Rightarrow> (Inl UnicodeDecodeError, s)
      | Parsed v \<Rightarrow> load_files a rest (append_at a v s))"

definition get_records :: "'f world \<Rightarrow> (py_exc + addr) \<times> 'f world" where
  "get_records s =
     (let records = Fresh (fresh s);
          s1 = s\<lparr>heap := (heap s)(records := heap s ClassRecords), fresh := Suc (fresh s)\<rparr>;
          profile_dir = get_profile_dir s1
      in if truthy profile_dir
         then (case load_files records (glob_json s1 (the profile_dir)) s1 of
                 (Inl e, s2) \<Rightarrow> (Inl e, s2)
               | (Inr _, s2) \<Rightarrow> (Inr records, s2))
         else (Inr records, s1))"

text \<open>\<^verbatim>\<open>clear\<close>: the class list is emptied in place, then every matching file is removed,
  a removal that raises being skipped. The pause before the removals is not modelled.\<close>

definition clear :: "(string \<Rightarrow> string \<Rightarrow> bool) \<Rightarrow> 'f world \<Rightarrow> 'f world" where
  "clear raises s =
     (let s1 = s\<lparr>heap := (heap s)(ClassRecords := [])\<rparr>;
          profile_dir = get_profile_dir s1
      in if truthy profile_dir
         then fold (try_remove raises) (glob_json s1 (the profile_dir)) s1
         else s1)"

section \<open>Experiment lifecycle (\<^verbatim>\<open>experiment.py\<close>, class \<^verbatim>\<open>Experiment\<close>)\<close>

subsection \<open>Python values and dictionaries\<close>

text \<open>
  The values that occur in a trial's result dictionary and in the cells of a table row. A
  dictionary keeps its keys in insertion order: it is an association list, read with
  \<open>map_of\<close> and written with \<open>AList.update\<close>, which replaces the value of a key that is
  present and appends a new key at the end, as \<^verbatim>\<open>d[k] = v\<close> does.
\<close>

datatype 'f pyval = PNone | PInt int | PFloat 'f | PStr string | PItems "'f item list"

type_synonym 'f pydict = "(string \<times> 'f pyval) list"

definition dict_set :: "string \<Rightarrow> 'f pyval \<Rightarrow> 'f pydict \<Rightarrow> 'f pydict" where
  "dict_set k v d = AList.update k v d"

text \<open>\<^verbatim>\<open>d.get(k)\<close> and \<^verbatim>\<open>d.get(k, default)\<close>.\<close>

definition dict_get_or :: "'f pydict \<Rightarrow> string \<Rightarrow> 'f pyval \<Rightarrow> 'f pyval" where
  "dict_get_or d k dflt = (case map_of d k of None \<Rightarrow> dflt | Some v \<Rightarrow> v)"

definition dict_get :: "'f pydict \<Rightarrow> string \<Rightarrow> 'f pyval" where
  "dict_get d k = dict_get_or d k PNone"

subsection \<open>One trial: \<^verbatim>\<open>Experiment.run\<close>\<close>

text \<open>
  The system counters are read by external collaborators. A snapshot holds what the trial
  reads from them: the CPU times by field (floats; the fields are those of the platform's
  named tuple and are the same before and after), the resident memory, the context switches,
  the I/O call counts and the NVMe counters, a dictionary whose values are integers or
  \<^verbatim>\<open>None\<close>. The battery charge is read too, and never used.
\<close>

record 'f snapshot =
  cpu_time :: "string \<Rightarrow> 'f"
  mem_rss :: int
  ctx_voluntary :: int
  ctx_involuntary :: int
  io_read_count :: int
  io_write_count :: int
  nvme :: "(string \<times> int option) list"

text \<open>What the environment supplies to one trial.\<close>

record 'f trial_env =
  remove_raises :: "string \<Rightarrow> string \<Rightarrow> bool"
  cpu_fields :: "string list"
  snap_before :: "'f snapshot"
  snap_after :: "'f snapshot"
  run_rapl :: "'f rapl_result option"
  run_warn :: warn_action
  run_start_ns :: int
  run_end_ns :: int

text \<open>\<^verbatim>\<open>os.path.join(work_dir, 'profiles')\<close>.\<close>

definition path_join :: "string \<Rightarrow> string \<Rightarrow> string" where
  "path_join a b = (if a = [] \<or> last a = CHR ''/'' then a @ b else a @ ''/'' @ b)"

text \<open>The loop over the NVMe counters read before the workload: a delta is stored for a key
  whose value is a number both before and after.\<close>

definition nvme_step :: "(string \<times> int option) list \<Rightarrow> 'f pydict \<Rightarrow> string \<times> int option \<Rightarrow> 'f pydict" where
  "nvme_step nvme_after metrics kv =
     (case (snd kv, map_of nvme_after (fst kv)) of
        (Some b, Some (Some a)) \<Rightarrow> dict_set (fst kv @ ''_delta'') (PInt (a - b)) metrics
      | _ \<Rightarrow> metrics)"

definition build_metrics :: "('f::{zero,plus,minus}) trial_env \<Rightarrow> 'f \<Rightarrow> 'f pydict" where
  "build_metrics env run_energy_j =
     (let b = snap_before env; a = snap_after env;
          m0 = [(''energy_j'', PFloat run_energy_j),
                (''elapsed_ns'', PInt (run_end_ns env - run_start_ns env))];
          m1 = foldl (\<lambda>m f. dict_set (''cpu_'' @ f) (PFloat (cpu_time a f - cpu_time b f)) m)
                 m0 (cpu_fields env);
          m2 = dict_set ''mem_delta_bytes'' (PInt (mem_rss a - mem_rss b)) m1;
          m3 = dict_set ''ctx_voluntary'' (PInt (ctx_voluntary a - ctx_voluntary b)) m2;
          m4 = dict_set ''ctx_involuntary'' (PInt (ctx_involuntary a - ctx_involuntary b)) m3;
          m5 = dict_set ''io_read_calls'' (PInt (io_read_count a - io_read_count b)) m4;
          m6 = dict_set ''io_write_calls'' (PInt (io_write_count a - io_write_count b)) m5
      in foldl (nvme_step (nvme a)) m6 (nvme b))"

text \<open>
  The configuration of an experiment object and its workload \<^verbatim>\<open>_run\<close>, which acts on the
  record store and returns, raises or never returns.

  \<^verbatim>\<open>run\<close> sets the environment variable, and inside \<^verbatim>\<open>try ... finally\<close> clears the
  store, runs the workload (inside a capture of its own when \<^verbatim>\<open>measure_total_run\<close> is set;
  this capture does not take the lock), builds the metrics and harvests the store; the
  \<^verbatim>\<open>finally\<close> block deletes the variable on every path. A failure of the workload leaves
  \<^verbatim>\<open>run\<close>; when the exit of the capture raises as well, its exception is the one that
  propagates, with the failure of the workload as context. The dictionary stores the list
  object returned by \<^verbatim>\<open>get_records\<close>; that object is new and nothing else refers to it,
  so the model stores its elements. Creating the two directories is taken to succeed.
\<close>

record experiment_cfg =
  class_name :: string
  work_dir :: string
  measure_total_run :: bool

definition unset_profile_dir :: "'f world \<Rightarrow> 'f world" where
  "unset_profile_dir s = s\<lparr>environ := None\<rparr>"

definition Experiment_run ::
  "('f::{zero,plus,minus}) float_ops \<Rightarrow> experiment_cfg \<Rightarrow>
   ('f world \<Rightarrow> ((py_exc + 'r) \<times> 'f world) option) \<Rightarrow> 'f trial_env \<Rightarrow>
   'f world \<Rightarrow> ((py_exc + 'f pydict) \<times> 'f world) option" where
  "Experiment_run ops cfg workload env s =
     (let profile_dir = path_join (work_dir cfg) ''profiles'';
          s1 = s\<lparr>environ := Some profile_dir\<rparr>;
          s2 = clear (remove_raises env) s1
      in case workload s2 of
           None \<Rightarrow> None
         | Some (outcome, s3) \<Rightarrow>
             (case (if measure_total_run cfg
                    then EnergySensor_exit ops (run_warn env) (run_rapl env)
                    else Inr \<lparr>meas_energy_j = 0, zero_warning = False\<rparr>) of
                Inl w \<Rightarrow>
                  Some (Inl (case outcome of Inl exc \<Rightarrow> WhileHandling w exc | Inr _ \<Rightarrow> w),
                        unset_profile_dir s3)
              | Inr m \<Rightarrow>
                  (let s4 = show_warning (class_name cfg) m s3
                   in case outcome of
                        Inl exc \<Rightarrow> Some (Inl exc, unset_profile_dir s4)
                      | Inr _ \<Rightarrow>
                          (case get_records s4 of
                             (Inl e, s5) \<Rightarrow> Some (Inl e, unset_profile_dir s5)
                           | (Inr profiles, s5) \<Rightarrow>
                               Some (Inr (dict_set ''function_profiles'' (PItems (heap s5 profiles))
                                            (build_metrics env (meas_energy_j m))),
                                     unset_profile_dir s5)))))"

section \<open>Trial orchestrator and persister (\<^verbatim>\<open>experiment.py\<close>, \<^verbatim>\<open>run_experiment\<close>)\<close>

subsection \<open>The experiment object and the destination files\<close>

text \<open>
  \<^verbatim>\<open>run_experiment\<close> receives an object with an output path and the two methods
  \<^verbatim>\<open>setup\<close> and \<^verbatim>\<open>run\<close>. Both act on a state of their own, of type \<open>'w\<close>, and return,
  raise or never return. The destination files are a separate state, which the object does
  not touch: a path has no file or a file of lines, and a line is the header row of a table or
  a data row. \<^verbatim>\<open>uuid.uuid4()\<close> is an oracle; the state counts the calls made to it.
  Creating the output directory and opening and writing the destination files are taken to
  succeed. Messages printed under \<^verbatim>\<open>verbose\<close> are not part of the state.
\<close>

record ('w, 'f) exp_object =
  exp_output :: string
  exp_setup :: "'w \<Rightarrow> ((py_exc + unit) \<times> 'w) option"
  exp_run :: "'w \<Rightarrow> ((py_exc + 'f pydict) \<times> 'w) option"

datatype 'f line = Header "string list" | Row "'f pyval list"

type_synonym 'f files = "string \<Rightarrow> 'f line list option"

record ('w, 'f) sys =
  lab :: 'w
  files :: "'f files"
  uuid_calls :: nat

subsection \<open>The trial loop\<close>

fun collect_runs ::
  "nat \<Rightarrow> ('w, 'f) exp_object \<Rightarrow> (nat \<Rightarrow> string) \<Rightarrow> 'f pydict list \<Rightarrow>
   ('w, 'f) sys \<Rightarrow> ((py_exc + 'f pydict list) \<times> ('w, 'f) sys) option" where
  "collect_runs 0 xp uuid4 all_results s = Some (Inr all_results, s)"
| "collect_runs (Suc n) xp uuid4 all_results s =
     (case exp_run xp (lab s) of
        None \<Rightarrow> None
      | Some (Inl exc, w) \<Rightarrow> Some (Inl exc, s\<lparr>lab := w\<rparr>)
      | Some (Inr run_data, w) \<Rightarrow>
          collect_runs n xp uuid4
            (all_results @ [dict_set ''run_uuid'' (PStr (uuid4 (uuid_calls s))) run_data])
            (s\<lparr>lab := w, uuid_calls := Suc (uuid_calls s)\<rparr>))"

subsection \<open>File names\<close>

text \<open>\<^verbatim>\<open>str.rfind\<close> of a character (\<open>-1\<close> when it does not occur) and \<^verbatim>\<open>os.path.splitext\<close>:
  the extension starts at the last dot, when that dot comes after the last separator and after
  a character of the file name that is not a dot.\<close>

definition rfind :: "char \<Rightarrow> string \<Rightarrow> int" where
  "rfind c p = (case filter (\<lambda>i. p ! i = c) (rev [0..<length p]) of [] \<Rightarrow> -1 | i # _ \<Rightarrow> int i)"

definition splitext :: "string \<Rightarrow> string \<times> string" where
  "splitext p =
     (let sepIndex = rfind CHR ''/'' p; dotIndex = rfind CHR ''.'' p
      in if dotIndex > sepIndex \<and>
            list_ex (\<lambda>i. p ! i \<noteq> CHR ''.'') [nat (sepIndex + 1)..<nat dotIndex]
         then (take (nat dotIndex) p, drop (nat dotIndex) p)
         else (p, []))"

definition profiles_file :: "string \<Rightarrow> string" where
  "profiles_file out = (case splitext out of (base, ext) \<Rightarrow> base @ ''_profiles'' @ ext)"

definition detailed_profiles_file :: "string \<Rightarrow> string" where
  "detailed_profiles_file out =
     (case splitext out of (base, ext) \<Rightarrow> base @ ''_detailed_profiles'' @ ext)"

subsection \<open>Writing the tables\<close>

text \<open>Opening a destination in mode \<^verbatim>\<open>'w'\<close> when it does not exist creates it empty;
  opening it in mode \<^verbatim>\<open>'a'\<close> when it exists leaves it as it is.\<close>

definition open_dest :: "string \<Rightarrow> 'f files \<Rightarrow> 'f files" where
  "open_dest p fs = (case fs p of None \<Rightarrow> fs(p \<mapsto> []) | Some _ \<Rightarrow> fs)"

definition writerow :: "string \<Rightarrow> 'f line \<Rightarrow> 'f files \<Rightarrow> 'f files" where
  "writerow p l fs = (case fs p of None \<Rightarrow> fs(p \<mapsto> [l]) | Some ls \<Rightarrow> fs(p \<mapsto> ls @ [l]))"

text \<open>The column list: the keys of the first result, \<^verbatim>\<open>remove('function_profiles')\<close>,
  \<^verbatim>\<open>remove('run_uuid')\<close> (each raises \<^verbatim>\<open>ValueError\<close> when the key is missing), then
  \<^verbatim>\<open>insert(0, 'run_uuid')\<close>.\<close>

definition py_remove :: "'a \<Rightarrow> 'a list \<Rightarrow> py_exc + 'a list" where
  "py_remove x xs = (if x \<in> set xs then Inr (remove1 x xs) else Inl ValueError)"

definition metric_keys_of :: "'f pydict \<Rightarrow> py_exc + string list" where
  "metric_keys_of first =
     (case py_remove ''function_profiles'' (map fst first) of
        Inl e \<Rightarrow> Inl e
      | Inr ks1 \<Rightarrow>
          (case py_remove ''run_uuid'' ks1 of
             Inl e \<Rightarrow> Inl e
           | Inr ks2 \<Rightarrow> Inr (''run_uuid'' # ks2)))"

text \<open>
  The first loop over the profiles reads \<^verbatim>\<open>rec['func_name']\<close>, which raises
  \<^verbatim>\<open>TypeError\<close> for a value that is not an object and \<^verbatim>\<open>KeyError\<close> for an object
  without the key, then \<^verbatim>\<open>rec.get('energy_j', 0.0)\<close> and \<^verbatim>\<open>rec.get('elapsed_ns', 0)\<close>.
  What it reads of one element is a record; the dictionary \<^verbatim>\<open>agg\<close> that it fills is local
  and is lost when the loop raises.
\<close>

definition agg_input :: "('f::zero) item \<Rightarrow> py_exc + 'f prec" where
  "agg_input it =
     (case it of
        NonObj \<Rightarrow> Inl TypeError
      | Obj None e t \<Rightarrow> Inl KeyError
      | Obj (Some n) e t \<Rightarrow>
          Inr \<lparr>func_name = n, energy_j = (case e of None \<Rightarrow> 0 | Some x \<Rightarrow> x),
               elapsed_ns = (case t of None \<Rightarrow> 0 | Some x \<Rightarrow> x)\<rparr>)"

fun agg_inputs :: "('f::zero) item list \<Rightarrow> py_exc + 'f prec list" where
  "agg_inputs [] = Inr []"
| "agg_inputs (it # rest) =
     (case agg_input it of
        Inl e \<Rightarrow> Inl e
      | Inr r \<Rightarrow> (case agg_inputs rest of Inl e \<Rightarrow> Inl e | Inr rs \<Rightarrow> Inr (r # rs)))"

text \<open>The aggregation dictionary \<^verbatim>\<open>agg\<close>, from a function name to its counters, in
  insertion order.\<close>

record 'f agg_entry =
  agg_count :: int
  agg_energy_j :: 'f
  agg_elapsed_ns :: int

definition agg_step ::
  "(string \<times> ('f::{zero,plus}) agg_entry) list \<Rightarrow> 'f prec \<Rightarrow> (string \<times> 'f agg_entry) list" where
  "agg_step agg rec =
     (let name = func_name rec; e = energy_j rec; t = elapsed_ns rec;
          agg1 = (if name \<notin> set (map fst agg)
                  then agg @ [(name, \<lparr>agg_count = 0, agg_energy_j = 0, agg_elapsed_ns = 0\<rparr>)]
                  else agg)
      in map (\<lambda>(n, d). if n = name
                         then (n, \<lparr>agg_count = agg_count d + 1,
                                   agg_energy_j = agg_energy_j d + e,
                                   agg_elapsed_ns = agg_elapsed_ns d + t\<rparr>)
                         else (n, d)) agg1)"

definition aggregate :: "('f::{zero,plus}) prec list \<Rightarrow> (string \<times> 'f agg_entry) list" where
  "aggregate profiles = foldl agg_step [] profiles"

text \<open>\<^verbatim>\<open>for rec in profiles\<close>: a list is iterated; the empty string has no element;
  anything else raises \<^verbatim>\<open>TypeError\<close>, at the loop or at \<^verbatim>\<open>rec['func_name']\<close>.\<close>

definition iter_profiles :: "'f pyval \<Rightarrow> py_exc + 'f item list" where
  "iter_profiles v = (case v of PItems its \<Rightarrow> Inr its | PStr [] \<Rightarrow> Inr [] | _ \<Rightarrow> Inl TypeError)"

definition summary_row :: "'f pyval \<Rightarrow> string \<times> 'f agg_entry \<Rightarrow> 'f line" where
  "summary_row run_uuid nd =
     Row [run_uuid, PStr (fst nd), PInt (agg_count (snd nd)), PFloat (agg_energy_j (snd nd)),
          PInt (agg_elapsed_ns (snd nd))]"

definition detail_row :: "'f pyval \<Rightarrow> 'f prec \<Rightarrow> 'f line" where
  "detail_row run_uuid rec =
     Row [run_uuid, PStr (func_name rec), PFloat (energy_j rec), PInt (elapsed_ns rec)]"

definition metrics_row :: "string list \<Rightarrow> 'f pydict \<Rightarrow> 'f line" where
  "metrics_row metric_keys result = Row (map (dict_get result) metric_keys)"

text \<open>The second loop over the profiles writes one detail row per element and reads the three
  keys with \<^verbatim>\<open>rec[...]\<close>: it raises at the first element that lacks one, the rows written
  before staying written.\<close>

fun write_details :: "string \<Rightarrow> 'f pyval \<Rightarrow> 'f item list \<Rightarrow> 'f files \<Rightarrow> (py_exc + unit) \<times> 'f files" where
  "write_details p run_uuid [] fs = (Inr (), fs)"
| "write_details p run_uuid (it # rest) fs =
     (case it of
        Obj (Some n) (Some e) (Some t) \<Rightarrow>
          write_details p run_uuid rest
            (writerow p (detail_row run_uuid \<lparr>func_name = n, energy_j = e, elapsed_ns = t\<rparr>) fs)
      | NonObj \<Rightarrow> (Inl TypeError, fs)
      | _ \<Rightarrow> (Inl KeyError, fs))"

text \<open>The body of the loop over the results: one metrics row, one summary row per entry of
  \<^verbatim>\<open>agg\<close>, one detail row per record.\<close>

definition persist_result ::
  "string \<Rightarrow> string list \<Rightarrow> ('f::{zero,plus}) files \<Rightarrow> 'f pydict \<Rightarrow> (py_exc + unit) \<times> 'f files" where
  "persist_result out metric_keys fs result =
     (let run_uuid = dict_get result ''run_uuid'';
          profiles = dict_get_or result ''function_profiles'' (PItems []);
          fs1 = writerow out (metrics_row metric_keys result) fs
      in case iter_profiles profiles of
           Inl e \<Rightarrow> (Inl e, fs1)
         | Inr items \<Rightarrow>
             (case agg_inputs items of
                Inl e \<Rightarrow> (Inl e, fs1)
              | Inr recs \<Rightarrow>
                  (let agg = aggregate recs;
                       fs2 = fold (\<lambda>nd. writerow (profiles_file out) (summary_row run_uuid nd))
                               agg fs1
                   in write_details (detailed_profiles_file out) run_uuid items fs2)))"

fun persist_all ::
  "string \<Rightarrow> string list \<Rightarrow> ('f::{zero,plus}) pydict list \<Rightarrow> 'f files \<Rightarrow> (py_exc + unit) \<times> 'f files" where
  "persist_all out metric_keys [] fs = (Inr (), fs)"
| "persist_all out metric_keys (result # rest) fs =
     (case persist_result out metric_keys fs result of
        (Inl e, fs1) \<Rightarrow> (Inl e, fs1)
      | (Inr _, fs1) \<Rightarrow> persist_all out metric_keys rest fs1)"

definition write_header :: "bool \<Rightarrow> string \<Rightarrow> string list \<Rightarrow> 'f files \<Rightarrow> 'f files" where
  "write_header exists p cols fs = (if \<not> exists then writerow p (Header cols) fs else fs)"

text \<open>The part of \<^verbatim>\<open>run_experiment\<close> after the trial loop, for a non-empty list of results.\<close>

definition persist ::
  "string \<Rightarrow> ('f::{zero,plus}) pydict list \<Rightarrow> 'f files \<Rightarrow> (py_exc + unit) \<times> 'f files" where
  "persist out all_results fs =
     (let metrics_file = out;
          metrics_exists = (fs metrics_file \<noteq> None);
          profiles_exists = (fs (profiles_file out) \<noteq> None);
          detailed_profiles_exists = (fs (detailed_profiles_file out) \<noteq> None);
          fs1 = open_dest (detailed_profiles_file out)
                  (open_dest (profiles_file out) (open_dest metrics_file fs))
      in case metric_keys_of (hd all_results) of
           Inl e \<Rightarrow> (Inl e, fs1)
         | Inr metric_keys \<Rightarrow>
             (let fs2 = write_header metrics_exists metrics_file metric_keys fs1;
                  fs3 = write_header profiles_exists (profiles_file out)
                          [''run_uuid'', ''func_name'', ''call_count'', ''total_energy_j'',
                           ''total_elapsed_ns''] fs2;
                  fs4 = write_header detailed_profiles_exists (detailed_profiles_file out)
                          [''run_uuid'', ''func_name'', ''energy_j'', ''elapsed_ns''] fs3
              in persist_all out metric_keys all_results fs4))"

definition run_experiment ::
  "('w, 'f::{zero,plus}) exp_object \<Rightarrow> int \<Rightarrow> (nat \<Rightarrow> string) \<Rightarrow> ('w, 'f) sys \<Rightarrow>
   ((py_exc + unit) \<times> ('w, 'f) sys) option" where
  "run_experiment xp runs uuid4 s =
     (case exp_setup xp (lab s) of
        None \<Rightarrow> None
      | Some (Inl exc, w) \<Rightarrow> Some (Inl exc, s\<lparr>lab := w\<rparr>)
      | Some (Inr _, w) \<Rightarrow>
          (case collect_runs (nat runs) xp uuid4 [] (s\<lparr>lab := w\<rparr>) of
             None \<Rightarrow> None
           | Some (Inl e, s1) \<Rightarrow> Some (Inl e, s1)
           | Some (Inr all_results, s1) \<Rightarrow>
               if all_results = [] then Some (Inr (), s1)
               else (case persist (exp_output xp) all_results (files s1) of
                       (r, fs) \<Rightarrow> Some (r, s1\<lparr>files := fs\<rparr>))))"

subsection \<open>An experiment object built on \<^verbatim>\<open>Experiment.run\<close>\<close>

text \<open>
  A subclass supplies \<^verbatim>\<open>setup\<close> and the workload. Its state is the record store together
  with the number of trials run so far, which selects what the environment supplies to the
  trial and how the workload behaves in it.
\<close>

record 'f lab_state =
  store :: "'f world"
  trial_no :: nat

definition Experiment_object ::
  "('f::{zero,plus,minus}) float_ops \<Rightarrow> string \<Rightarrow> experiment_cfg \<Rightarrow>
   ('f world \<Rightarrow> ((py_exc + unit) \<times> 'f world) option) \<Rightarrow>
   (nat \<Rightarrow> 'f world \<Rightarrow> ((py_exc + 'r) \<times> 'f world) option) \<Rightarrow> (nat \<Rightarrow> 'f trial_env) \<Rightarrow>
   ('f lab_state, 'f) exp_object" where
  "Experiment_object ops out cfg setup workload envs =
     \<lparr>exp_output = out,
      exp_setup = (\<lambda>l. case setup (store l) of
                         None \<Rightarrow> None
                       | Some (r, s) \<Rightarrow> Some (r, l\<lparr>store := s\<rparr>)),
      exp_run = (\<lambda>l. case Experiment_run ops cfg (workload (trial_no l)) (envs (trial_no l)) (store l) of
                       None \<Rightarrow> None
                     | Some (r, s) \<Rightarrow> Some (r, \<lparr>store = s, trial_no = Suc (trial_no l)\<rparr>))\<rparr>"

section \<open>Notions used to state the properties\<close>

text \<open>The total that \<^verbatim>\<open>__exit__\<close> computes: the sum of the package readings plus the sum
  of the memory readings, each taken from the left, a missing result or list giving zero.\<close>

definition capture_total :: "('f::{zero,plus}) rapl_result option \<Rightarrow> 'f" where
  "capture_total res =
     (case res of None \<Rightarrow> 0 | Some r \<Rightarrow> py_sum (or_empty (pkg r)) + py_sum (or_empty (dram r)))"

text \<open>The readings that are available in a result: every entry of every list that is present.\<close>

definition available_readings :: "'f rapl_result option \<Rightarrow> 'f list" where
  "available_readings res =
     (case res of None \<Rightarrow> [] | Some r \<Rightarrow> or_empty (pkg r) @ or_empty (dram r))"


text \<open>The values that the harvest loop appends for a list of files: the parsed ones, in
  order; and the condition that none of the files fails to decode.\<close>

definition parsed_items :: "(string \<times> 'f pfile) list \<Rightarrow> 'f item list" where
  "parsed_items ps = concat (map (\<lambda>df. case content (snd df) of Parsed v \<Rightarrow> [v] | _ \<Rightarrow> []) ps)"

definition decodable :: "(string \<times> 'f pfile) list \<Rightarrow> bool" where
  "decodable ps = list_all (\<lambda>df. content (snd df) \<noteq> Undecodable) ps"

text \<open>The files that a harvest or a clear visits in the state \<open>s\<close>.\<close>

definition visited :: "'f world \<Rightarrow> (string \<times> 'f pfile) list" where
  "visited s = (if truthy (get_profile_dir s) then glob_json s (the (get_profile_dir s)) else [])"

text \<open>No removal attempted by \<^verbatim>\<open>clear\<close> in the state \<open>s\<close> raises.\<close>

definition removals_succeed :: "(string \<Rightarrow> string \<Rightarrow> bool) \<Rightarrow> 'f world \<Rightarrow> bool" where
  "removals_succeed raises s = list_all (\<lambda>df. \<not> raises (fst df) (fname (snd df))) (visited s)"

text \<open>The directories that a clear visits, and what it leaves of a listing of the directory
  \<open>d\<close>: the entries that do not match and the entries whose removal raises.\<close>

definition visited_dirs :: "'f world \<Rightarrow> string list" where
  "visited_dirs s =
     (if truthy (get_profile_dir s) then glob_dirs s (the (get_profile_dir s)) else [])"

definition survivors :: "(string \<Rightarrow> string \<Rightarrow> bool) \<Rightarrow> string \<Rightarrow> 'f pfile list \<Rightarrow> 'f pfile list" where
  "survivors raises d fs = filter (\<lambda>g. \<not> matches_json (fname g) \<or> raises d (fname g)) fs"

text \<open>The record that the wrapper builds for a call that returned, given what the exit of
  the capture stored.\<close>

definition built_record :: "string \<Rightarrow> 'f call_env \<Rightarrow> 'f sensor_exit \<Rightarrow> 'f prec" where
  "built_record label env m =
     \<lparr>func_name = label, energy_j = meas_energy_j m, elapsed_ns = end_ns env - start_ns env\<rparr>"

text \<open>In the directory \<open>d\<close> there is a file named \<open>n\<close>, and it parses to the value \<open>v\<close>.\<close>

definition file_holds :: "'f world \<Rightarrow> string \<Rightarrow> string \<Rightarrow> 'f item \<Rightarrow> bool" where
  "file_holds s d n v =
     (list_ex (\<lambda>f. fname f = n) (dirs s d) \<and>
      list_all (\<lambda>f. fname f = n \<longrightarrow> content f = Parsed v) (dirs s d))"

text \<open>The number that a string of decimal digits denotes; it reads back what \<open>str_nat\<close>
  prints.\<close>

definition digit_val :: "char \<Rightarrow> nat" where
  "digit_val c = length (takeWhile (\<lambda>x. x \<noteq> c) ''0123456789'')"

definition str_val :: "string \<Rightarrow> nat" where
  "str_val cs = foldl (\<lambda>a c. 10 * a + digit_val c) 0 cs"

text \<open>What the loops of the persister read of an element of the profiles: its record, the
  defaults standing in for a missing energy or time; and the elements that hold all three
  keys.\<close>

definition rec_of :: "('f::zero) item \<Rightarrow> 'f prec" where
  "rec_of it =
     (case it of
        NonObj \<Rightarrow> \<lparr>func_name = [], energy_j = 0, elapsed_ns = 0\<rparr>
      | Obj n e t \<Rightarrow>
          \<lparr>func_name = (case n of None \<Rightarrow> [] | Some x \<Rightarrow> x),
           energy_j = (case e of None \<Rightarrow> 0 | Some x \<Rightarrow> x),
           elapsed_ns = (case t of None \<Rightarrow> 0 | Some x \<Rightarrow> x)\<rparr>)"

definition complete :: "'f item \<Rightarrow> bool" where
  "complete it = (case it of Obj (Some n) (Some e) (Some t) \<Rightarrow> True | _ \<Rightarrow> False)"

text \<open>The profiles of a trial's result, when its \<^verbatim>\<open>function_profiles\<close> entry is a list
  (none otherwise), the records read of them, and the correlation id of the result.\<close>

definition items_of :: "'f pydict \<Rightarrow> 'f item list" where
  "items_of result =
     (case dict_get_or result ''function_profiles'' (PItems []) of PItems its \<Rightarrow> its | _ \<Rightarrow> [])"

definition records_of :: "('f::zero) pydict \<Rightarrow> 'f prec list" where
  "records_of result = map rec_of (items_of result)"

definition run_uuid_of :: "'f pydict \<Rightarrow> 'f pyval" where
  "run_uuid_of result = dict_get result ''run_uuid''"

text \<open>The lines of a destination (none when it does not exist), the cells of a line (a
  header is not a data row and has none), and the data rows of a destination whose first
  cells are given.\<close>

definition lines_of :: "'f files \<Rightarrow> string \<Rightarrow> 'f line list" where
  "lines_of fs p = (case fs p of None \<Rightarrow> [] | Some ls \<Rightarrow> ls)"

definition row_cells :: "'f line \<Rightarrow> 'f pyval list" where
  "row_cells l = (case l of Header _ \<Rightarrow> [] | Row cs \<Rightarrow> cs)"

definition rows_with :: "'f pyval list \<Rightarrow> 'f line list \<Rightarrow> 'f line list" where
  "rows_with cs ls = filter (\<lambda>l. take (length cs) (row_cells l) = cs \<and> cs \<noteq> []) ls"

text \<open>Appending lines to a destination, creating it when it does not exist.\<close>

definition append_lines :: "string \<Rightarrow> 'f line list \<Rightarrow> 'f files \<Rightarrow> 'f files" where
  "append_lines p ls fs = fs(p \<mapsto> lines_of fs p @ ls)"

text \<open>The lines that one trial contributes to the function-summary and call-detail tables.\<close>

definition summary_rows :: "('f::{zero,plus}) pydict \<Rightarrow> 'f line list" where
  "summary_rows result = map (summary_row (run_uuid_of result)) (aggregate (records_of result))"

definition detail_rows :: "('f::zero) pydict \<Rightarrow> 'f line list" where
  "detail_rows result = map (detail_row (run_uuid_of result)) (records_of result)"

text \<open>The state of the experiment object before trial \<open>k\<close>, when the trials before it have
  returned, and the list of results that \<^verbatim>\<open>run_experiment\<close> collects when \<^verbatim>\<open>setup\<close> and
  all trials return.\<close>

fun lab_after :: "('w, 'f) exp_object \<Rightarrow> nat \<Rightarrow> 'w \<Rightarrow> 'w option" where
  "lab_after xp 0 w = Some w"
| "lab_after xp (Suc k) w =
     (case exp_run xp w of Some (Inr d, w1) \<Rightarrow> lab_after xp k w1 | _ \<Rightarrow> None)"

definition all_results_of ::
  "('w, 'f) exp_object \<Rightarrow> int \<Rightarrow> (nat \<Rightarrow> string) \<Rightarrow> ('w, 'f) sys \<Rightarrow> 'f pydict list" where
  "all_results_of xp runs uuid4 s =
     (case exp_setup xp (lab s) of
        Some (Inr _, w) \<Rightarrow>
          (case collect_runs (nat runs) xp uuid4 [] (s\<lparr>lab := w\<rparr>) of
             Some (Inr all_results, _) \<Rightarrow> all_results
           | _ \<Rightarrow> [])
      | _ \<Rightarrow> [])"

text \<open>A failure \<open>exc\<close> is observable in the exception \<open>e\<close> that reaches the caller: \<open>e\<close> is
  \<open>exc\<close>, or \<open>e\<close> was raised while \<open>exc\<close> was being handled and carries it as context.\<close>

definition observable :: "py_exc \<Rightarrow> py_exc \<Rightarrow> bool" where
  "observable exc e = (e = exc \<or> (case e of WhileHandling w c \<Rightarrow> c = exc | _ \<Rightarrow> False))"

text \<open>The first lines of a table before the rows of an invocation are appended: what the
  destination held, or the header row when the destination did not exist.\<close>

definition table_start :: "string list \<Rightarrow> 'f line list option \<Rightarrow> 'f line list" where
  "table_start cols old = (case old of None \<Rightarrow> [Header cols] | Some ls \<Rightarrow> ls)"

text \<open>The destination files after the rows of a list of results have been appended.\<close>

definition tables_after ::
  "string \<Rightarrow> string list \<Rightarrow> ('f::{zero,plus}) pydict list \<Rightarrow> 'f files \<Rightarrow> 'f files" where
  "tables_after out metric_keys results fs =
     append_lines (detailed_profiles_file out) (concat (map detail_rows results))
       (append_lines (profiles_file out) (concat (map summary_rows results))
          (append_lines out (map (metrics_row metric_keys) results) fs))"

text \<open>The counters of one function in the aggregation dictionary: the entry before any of
  its calls, and the update made for one call.\<close>

definition zero_entry :: "('f::{zero,plus}) agg_entry" where
  "zero_entry = \<lparr>agg_count = 0, agg_energy_j = 0, agg_elapsed_ns = 0\<rparr>"

definition bump :: "('f::{zero,plus}) agg_entry \<Rightarrow> 'f prec \<Rightarrow> 'f agg_entry" where
  "bump d rec = \<lparr>agg_count = agg_count d + 1, agg_energy_j = agg_energy_j d + energy_j rec,
                  agg_elapsed_ns = agg_elapsed_ns d + elapsed_ns rec\<rparr>"

text \<open>The fixed column lists of the function-summary and call-detail tables.\<close>

definition profiles_header :: "string list" where
  "profiles_header =
     [''run_uuid'', ''func_name'', ''call_count'', ''total_energy_j'', ''total_elapsed_ns'']"

definition detailed_header :: "string list" where
  "detailed_header = [''run_uuid'', ''func_name'', ''energy_j'', ''elapsed_ns'']"

text \<open>The destination files once the three tables have been opened and the missing headers
  written.\<close>

definition with_headers :: "string \<Rightarrow> string list \<Rightarrow> 'f files \<Rightarrow> 'f files" where
  "with_headers out metric_keys fs =
     (\<lambda>p. if p = out then Some (table_start metric_keys (fs p))
          else if p = profiles_file out then Some (table_start profiles_header (fs p))
          else if p = detailed_profiles_file out then Some (table_start detailed_header (fs p))
          else fs p)"

text \<open>The correlation ids that an invocation draws when the oracle has been called \<open>c\<close>
  times before and \<open>n\<close> trials are run, and the condition that none of them already occurs
  as the first cell of a row of the three destinations.\<close>

definition drawn_ids :: "(nat \<Rightarrow> string) \<Rightarrow> nat \<Rightarrow> nat \<Rightarrow> string list" where
  "drawn_ids uuid4 c n = map uuid4 [c..<c + n]"

definition fresh_ids :: "string list \<Rightarrow> 'f files \<Rightarrow> string \<Rightarrow> bool" where
  "fresh_ids ids fs out =
     list_all (\<lambda>i. list_all (\<lambda>p. rows_with [PStr i] (lines_of fs p) = [])
                       [out, profiles_file out, detailed_profiles_file out]) ids"

section \<open>Concrete inputs\<close>

text \<open>
  Float operations, a record, stores, environments and callables on which the theorems below
  are instantiated. The operations are those of the reals, which stand in for the machine's
  on inputs where no rounding occurs.
\<close>

definition ex_ops :: "real float_ops" where
  "ex_ops = \<lparr>is_zero = (\<lambda>x. x = 0), div_1e6 = (\<lambda>x. x / 1000000)\<rparr>"

definition ex_record :: "real prec" where
  "ex_record = \<lparr>func_name = ''work'', energy_j = 4, elapsed_ns = 250\<rparr>"

definition ex_world :: "real world" where
  "ex_world = \<lparr>heap = (\<lambda>_. []), fresh = 0, environ = None, dirs = (\<lambda>_. []),
               glob_dirs = (\<lambda>p. [p]), lock_held = False, messages = []\<rparr>"

text \<open>A store with a configured, empty shared directory.\<close>

definition ex_shared_world :: "real world" where
  "ex_shared_world = ex_world\<lparr>environ := Some ''/tmp/profiles''\<rparr>"

text \<open>A store whose shared directory holds one record file and one file of another kind.\<close>

definition ex_stuck_world :: "real world" where
  "ex_stuck_world =
     ex_shared_world\<lparr>dirs := (\<lambda>d. if d = ''/tmp/profiles''
         then [\<lparr>fname = ''prof_7_1700000000000001.json'', content = Parsed (item_of ex_record)\<rparr>,
               \<lparr>fname = ''notes.txt'', content = Unreadable\<rparr>]
         else [])\<rparr>"

text \<open>A store whose shared directory holds a file named like a record file whose bytes are
  not valid text.\<close>

definition ex_undecodable_world :: "real world" where
  "ex_undecodable_world =
     ex_shared_world\<lparr>dirs := (\<lambda>d. if d = ''/tmp/profiles''
         then [\<lparr>fname = ''blob.json'', content = Undecodable\<rparr>]
         else [])\<rparr>"

definition ex_always_raises :: "string \<Rightarrow> string \<Rightarrow> bool" where
  "ex_always_raises d n = True"

definition ex_never_raises :: "string \<Rightarrow> string \<Rightarrow> bool" where
  "ex_never_raises d n = False"

text \<open>Environments of a call: a capture that reads four joules; the same with a file that
  cannot be opened for writing; a capture that reads nothing under a filter that turns
  warnings into errors.\<close>

definition ex_env :: "real call_env" where
  "ex_env = \<lparr>rapl = Some \<lparr>pkg = Some [3000000], dram = Some [1000000]\<rparr>, warn = WarnShow,
             start_ns = 100, end_ns = 350, env_pid = 7, now_us = 1700000000000001,
             write_res = WriteOk\<rparr>"

definition ex_failing_env :: "real call_env" where
  "ex_failing_env = ex_env\<lparr>write_res := OpenRaises\<rparr>"


text \<open>A function that doubles its argument and raises on a negative one; a function that
  makes a profiled call to it; a function whose worker process leaves a record file in the
  shared directory before the function raises.\<close>

definition ex_body :: "int \<Rightarrow> real world \<Rightarrow> ((py_exc + int) \<times> real world) option" where
  "ex_body n s =
     (if n < 0 then Some (Inl (Raised ''negative argument''), s) else Some (Inr (2 * n), s))"


definition ex_worker_body :: "int \<Rightarrow> real world \<Rightarrow> ((py_exc + int) \<times> real world) option" where
  "ex_worker_body n s =
     Some (Inl (Raised ''worker failed''),
           s\<lparr>dirs := (dirs s)(''/tmp/profiles'' :=
                put_file ''prof_9_1700000000000002.json'' (Parsed (item_of ex_record))
                  (dirs s ''/tmp/profiles''))\<rparr>)"

text \<open>An oracle for \<^verbatim>\<open>uuid.uuid4()\<close>, a configuration, what the environment supplies
  to a trial, and an experiment whose workload raises in its second trial.\<close>

definition ex_uuid4 :: "nat \<Rightarrow> string" where
  "ex_uuid4 n = ''run-'' @ replicate n CHR ''i''"

definition ex_cfg :: experiment_cfg where
  "ex_cfg = \<lparr>class_name = ''Demo'', work_dir = ''/tmp'', measure_total_run = True\<rparr>"

definition ex_snapshot :: "real snapshot" where
  "ex_snapshot = \<lparr>cpu_time = (\<lambda>_. 0), mem_rss = 0, ctx_voluntary = 0, ctx_involuntary = 0,
                  io_read_count = 0, io_write_count = 0, nvme = []\<rparr>"

definition ex_trial_env :: "real trial_env" where
  "ex_trial_env = \<lparr>remove_raises = ex_never_raises, cpu_fields = [''user''],
                   snap_before = ex_snapshot, snap_after = ex_snapshot,
                   run_rapl = Some \<lparr>pkg = Some [3000000], dram = Some [1000000]\<rparr>,
                   run_warn = WarnShow, run_start_ns = 100, run_end_ns = 700\<rparr>"

definition ex_setup :: "real world \<Rightarrow> ((py_exc + unit) \<times> real world) option" where
  "ex_setup s = Some (Inr (), s)"

definition ex_workload :: "nat \<Rightarrow> real world \<Rightarrow> ((py_exc + unit) \<times> real world) option" where
  "ex_workload k s = (if k = 1 then Some (Inl (Raised ''disk full''), s) else Some (Inr (), s))"

definition ex_experiment :: "(real lab_state, real) exp_object" where
  "ex_experiment =
     Experiment_object ex_ops ''results.csv'' ex_cfg ex_setup ex_workload (\<lambda>_. ex_trial_env)"

definition ex_lab_sys :: "(real lab_state, real) sys" where
  "ex_lab_sys = \<lparr>lab = \<lparr>store = ex_world, trial_no = 0\<rparr>, files = (\<lambda>_. None), uuid_calls = 0\<rparr>"

section \<open>Properties of the scoped energy measurement\<close>

lemma foldl_plus_sum_list: "foldl (+) a xs = (a :: 'a::monoid_add) + sum_list xs"
  by (induction xs arbitrary: a) (simp_all add: add.assoc)

lemma py_sum_sum_list: "py_sum xs = (sum_list xs :: 'a::monoid_add)"
  by (simp add: py_sum_def foldl_plus_sum_list)

lemma capture_total_exact:
  "capture_total res = (sum_list (available_readings res) :: 'a::monoid_add)"
  by (cases res) (simp_all add: capture_total_def available_readings_def py_sum_sum_list)





section \<open>Properties of the function profiler\<close>

lemma ex_exit: "EnergySensor_exit ex_ops (warn ex_env) (rapl ex_env) =
    Inr \<lparr>meas_energy_j = 4, zero_warning = False\<rparr>"
  by (simp add: EnergySensor_exit_def ex_env_def ex_ops_def py_sum_def or_empty_def)

lemma ex_exit_failing: "EnergySensor_exit ex_ops (warn ex_failing_env) (rapl ex_failing_env) =
    Inr \<lparr>meas_energy_j = 4, zero_warning = False\<rparr>"
  by (simp add: EnergySensor_exit_def ex_failing_env_def ex_env_def ex_ops_def py_sum_def or_empty_def)


lemma ex_world_lock: "\<not> lock_held ex_world" "\<not> lock_held ex_shared_world"
  by (simp_all add: ex_world_def ex_shared_world_def)





subsection \<open>A call that raises\<close>

text \<open>
  Claim C9, as stated, fails for a body that changes the store before it raises: here a
  worker process of the body has left a record file in the shared directory, which therefore
  is not what it was before the call.
\<close>

theorem profile_raise_no_record_counterexample:
  "\<not> lock_held ex_shared_world \<and>
   fst (the (ex_worker_body 0 (ex_shared_world\<lparr>lock_held := True\<rparr>))) = Inl (Raised ''worker failed'') \<and>
   fst (the (profile ex_ops (Some ''work'') ex_worker_body ex_env 0 ex_shared_world)) =
     Inl (Raised ''worker failed'') \<and>
   dirs ex_shared_world ''/tmp/profiles'' = [] \<and>
   dirs (snd (the (profile ex_ops (Some ''work'') ex_worker_body ex_env 0 ex_shared_world)))
     ''/tmp/profiles'' =
     [\<lparr>fname = ''prof_9_1700000000000002.json'', content = Parsed (item_of ex_record)\<rparr>]"
  by (simp add: profile_def ex_worker_body_def ex_exit show_warning_def Let_def put_file_def
      ex_shared_world_def ex_world_def)

text \<open>
  Claim C9, amended. When the body raises, the wrapper raises too and emits no record: every
  list object, every directory and the configuration are what the body left when it raised;
  so for a body that does not change the lists and the directories they are what they were
  before the call.
\<close>

theorem profile_raise_no_record:
  assumes "\<not> lock_held s" and "func args (s\<lparr>lock_held := True\<rparr>) = Some (Inl exc, s1)"
  shows "\<exists>e s2. profile ops (Some label) func env args s = Some (Inl e, s2) \<and>
           heap s2 = heap s1 \<and> dirs s2 = dirs s1 \<and> environ s2 = environ s1 \<and>
           (heap s1 = heap s \<and> dirs s1 = dirs s \<longrightarrow> heap s2 = heap s \<and> dirs s2 = dirs s)"
  using assms
  by (cases "EnergySensor_exit ops (warn env) (rapl env)")
    (auto simp: profile_def Let_def show_warning_def)

theorem profile_raise_no_record_witness:
  "\<not> lock_held ex_stuck_world \<and>
   ex_body (- 1) (ex_stuck_world\<lparr>lock_held := True\<rparr>) =
     Some (Inl (Raised ''negative argument''), ex_stuck_world\<lparr>lock_held := True\<rparr>) \<and>
   (\<exists>e s2. profile ex_ops (Some ''work'') ex_body ex_env (- 1) ex_stuck_world = Some (Inl e, s2) \<and>
      heap s2 = heap ex_stuck_world \<and> dirs s2 = dirs ex_stuck_world)"
proof -
  have l: "\<not> lock_held ex_stuck_world"
    by (simp add: ex_stuck_world_def ex_shared_world_def ex_world_def)
  have b: "ex_body (- 1) (ex_stuck_world\<lparr>lock_held := True\<rparr>) =
      Some (Inl (Raised ''negative argument''), ex_stuck_world\<lparr>lock_held := True\<rparr>)"
    by (simp add: ex_body_def)
  show ?thesis
    using profile_raise_no_record [where s = ex_stuck_world and func = ex_body and args = "- 1"
        and exc = "Raised ''negative argument''" and ?s1.0 = "ex_stuck_world\<lparr>lock_held := True\<rparr>"
        and ops = ex_ops and label = "''work''" and env = ex_env, OF l b] l b
    by auto
qed

subsection \<open>Harvesting\<close>

lemma load_files_frame:
  "load_files a ps s = (r, s') \<Longrightarrow>
   (\<forall>b. b \<noteq> a \<longrightarrow> heap s' b = heap s b) \<and> fresh s' = fresh s \<and> environ s' = environ s \<and>
   dirs s' = dirs s \<and> glob_dirs s' = glob_dirs s \<and> lock_held s' = lock_held s \<and>
   messages s' = messages s"
proof (induction ps arbitrary: s)
  case Nil
  then show ?case by simp
next
  case (Cons df ps)
  show ?case
  proof (cases "content (snd df)")
    case Unreadable
    with Cons show ?thesis by simp
  next
    case Undecodable
    with Cons.prems show ?thesis by auto
  next
    case (Parsed v)
    with Cons.prems have "load_files a ps (append_at a v s) = (r, s')" by simp
    from Cons.IH [OF this] show ?thesis by (simp add: append_at_def)
  qed
qed

lemma load_files_decodable:
  "decodable ps \<Longrightarrow>
   load_files a ps s = (Inr (), s\<lparr>heap := (heap s)(a := heap s a @ parsed_items ps)\<rparr>)"
proof (induction ps arbitrary: s)
  case Nil
  show ?case by (simp add: parsed_items_def)
next
  case (Cons df ps)
  then have d: "decodable ps" and c: "content (snd df) \<noteq> Undecodable"
    by (simp_all add: decodable_def)
  show ?case
  proof (cases "content (snd df)")
    case Unreadable
    then show ?thesis using Cons.IH [OF d, of s] by (simp add: parsed_items_def)
  next
    case Undecodable
    with c show ?thesis by simp
  next
    case (Parsed v)
    then show ?thesis
      using Cons.IH [OF d, of "append_at a v s"]
      by (auto simp: parsed_items_def append_at_def fun_eq_iff intro!: world.equality)
  qed
qed

lemma load_files_undecodable:
  "\<not> decodable ps \<Longrightarrow> fst (load_files a ps s) = Inl UnicodeDecodeError"
proof (induction ps arbitrary: s)
  case Nil
  then show ?case by (simp add: decodable_def)
next
  case (Cons df ps)
  then show ?case
    by (cases "content (snd df)") (simp_all add: decodable_def)
qed

lemma glob_json_cong:
  "dirs s = dirs t \<Longrightarrow> glob_dirs s = glob_dirs t \<Longrightarrow> glob_json s d = glob_json t d"
  by (simp add: glob_json_def)

lemma visited_alloc:
  "visited (s\<lparr>heap := h, fresh := n\<rparr>) = visited s"
  by (simp add: visited_def get_profile_dir_def glob_json_def)

lemma get_records_returns:
  "decodable (visited s) \<Longrightarrow>
   get_records s =
     (Inr (Fresh (fresh s)),
      s\<lparr>heap := (heap s)(Fresh (fresh s) := heap s ClassRecords @ parsed_items (visited s)),
        fresh := Suc (fresh s)\<rparr>)"
  by (auto simp: get_records_def Let_def visited_def get_profile_dir_def load_files_decodable
      glob_json_def parsed_items_def)

lemma get_records_raises:
  "\<not> decodable (visited s) \<Longrightarrow> fst (get_records s) = Inl UnicodeDecodeError"
proof -
  assume n: "\<not> decodable (visited s)"
  then have t: "truthy (get_profile_dir s)"
    by (auto simp: visited_def decodable_def split: if_splits)
  let ?s1 = "s\<lparr>heap := (heap s)(Fresh (fresh s) := heap s ClassRecords), fresh := Suc (fresh s)\<rparr>"
  have "glob_json ?s1 (the (get_profile_dir s)) = visited s"
    using t by (simp add: visited_def glob_json_def)
  with n have "fst (load_files (Fresh (fresh s)) (glob_json ?s1 (the (get_profile_dir s))) ?s1) =
      Inl UnicodeDecodeError"
    by (simp add: load_files_undecodable)
  with t show ?thesis
    by (auto simp: get_records_def Let_def get_profile_dir_def split: prod.splits sum.splits)
qed

lemma get_records_frame:
  "get_records s = (r, s') \<Longrightarrow>
   (\<forall>b. b \<noteq> Fresh (fresh s) \<longrightarrow> heap s' b = heap s b) \<and> environ s' = environ s \<and>
   dirs s' = dirs s \<and> glob_dirs s' = glob_dirs s \<and> lock_held s' = lock_held s \<and>
   messages s' = messages s \<and> fresh s' = Suc (fresh s)"
proof (cases "truthy (get_profile_dir s)")
  case False
  assume "get_records s = (r, s')"
  with False show ?thesis
    by (auto simp: get_records_def Let_def get_profile_dir_def)
next
  case True
  assume g: "get_records s = (r, s')"
  let ?s1 = "s\<lparr>heap := (heap s)(Fresh (fresh s) := heap s ClassRecords), fresh := Suc (fresh s)\<rparr>"
  obtain q where l: "load_files (Fresh (fresh s)) (glob_json ?s1 (the (get_profile_dir s))) ?s1 = (q, s')"
    using g True
    by (auto simp: get_records_def Let_def get_profile_dir_def split: prod.splits sum.splits)
  from load_files_frame [OF l] show ?thesis by simp
qed

lemma matches_json_ex1: "matches_json ''prof_7_1700000000000001.json''"
  by (simp add: matches_json_def suffix_def)

lemma matches_json_ex2: "\<not> matches_json ''notes.txt''"
  by (simp add: matches_json_def suffix_def)

lemma matches_json_ex3: "matches_json ''blob.json''"
  by (simp add: matches_json_def suffix_def)

lemma visited_ex_undecodable:
  "visited ex_undecodable_world =
     [(''/tmp/profiles'', \<lparr>fname = ''blob.json'', content = Undecodable\<rparr>)]"
  by (simp add: visited_def ex_undecodable_world_def ex_shared_world_def ex_world_def
      get_profile_dir_def truthy_def glob_json_def matches_json_ex3)

text \<open>
  Claim C10 is what the harvest is meant to do, and the code misses a case: of the exceptions
  that reading a file can raise, the loop catches \<^verbatim>\<open>IOError\<close> and
  \<^verbatim>\<open>JSONDecodeError\<close> and skips the file, but not \<^verbatim>\<open>UnicodeDecodeError\<close>. In a
  store whose shared directory holds a matching file that is not valid text,
  \<^verbatim>\<open>get_records\<close> raises instead of returning a list. (The lemmas above give the claim
  for the other stores: \<open>get_records_returns\<close> and \<open>get_records_frame\<close>.)
\<close>

theorem get_records_undecodable:
  "fst (get_records ex_undecodable_world) = Inl UnicodeDecodeError"
  by (rule get_records_raises) (simp add: visited_ex_undecodable decodable_def)

subsection \<open>Clearing\<close>

lemma try_remove_raises: "raises (fst df) (fname (snd df)) \<Longrightarrow> try_remove raises df s = s"
  by (simp add: try_remove_def)

lemma try_remove_ok:
  "\<not> raises (fst df) (fname (snd df)) \<Longrightarrow>
   try_remove raises df s =
     s\<lparr>dirs := (dirs s)(fst df := filter (\<lambda>g. fname g \<noteq> fname (snd df)) (dirs s (fst df)))\<rparr>"
  by (simp add: try_remove_def)

lemma fold_try_remove:
  "fold (try_remove raises) ps s =
     s\<lparr>dirs := (\<lambda>d. filter (\<lambda>g. (d, fname g) \<notin>
                  (\<lambda>df. (fst df, fname (snd df))) ` {df \<in> set ps. \<not> raises (fst df) (fname (snd df))})
                (dirs s d))\<rparr>"
proof (induction ps arbitrary: s)
  case Nil
  show ?case by simp
next
  case (Cons df ps)
  show ?case
  proof (cases "raises (fst df) (fname (snd df))")
    case True
    then show ?thesis
      by (auto simp: Cons.IH try_remove_raises fun_eq_iff intro!: world.equality filter_cong)
  next
    case False
    then show ?thesis
      by (auto simp: Cons.IH try_remove_ok fun_eq_iff intro!: world.equality filter_cong)
  qed
qed

lemma removed_iff:
  assumes "g \<in> set (dirs s d)"
  shows "(d, fname g) \<in> (\<lambda>df. (fst df, fname (snd df))) `
            {df \<in> set (glob_json s p). \<not> raises (fst df) (fname (snd df))} \<longleftrightarrow>
         d \<in> set (glob_dirs s p) \<and> matches_json (fname g) \<and> \<not> raises d (fname g)"
proof
  assume "(d, fname g) \<in> (\<lambda>df. (fst df, fname (snd df))) `
      {df \<in> set (glob_json s p). \<not> raises (fst df) (fname (snd df))}"
  then obtain df where df: "df \<in> set (glob_json s p)" "\<not> raises (fst df) (fname (snd df))"
      "fst df = d" "fname (snd df) = fname g"
    by auto
  from df(1) have "fst df \<in> set (glob_dirs s p)" "matches_json (fname (snd df))"
    by (auto simp: glob_json_def)
  with df show "d \<in> set (glob_dirs s p) \<and> matches_json (fname g) \<and> \<not> raises d (fname g)"
    by simp
next
  assume a: "d \<in> set (glob_dirs s p) \<and> matches_json (fname g) \<and> \<not> raises d (fname g)"
  with assms have "(d, g) \<in> set (glob_json s p)"
    by (auto simp: glob_json_def)
  with a show "(d, fname g) \<in> (\<lambda>df. (fst df, fname (snd df))) `
      {df \<in> set (glob_json s p). \<not> raises (fst df) (fname (snd df))}"
    by force
qed

lemma clear_eq:
  "clear raises s =
     s\<lparr>heap := (heap s)(ClassRecords := []),
       dirs := (\<lambda>d. if d \<in> set (visited_dirs s) then survivors raises d (dirs s d) else dirs s d)\<rparr>"
proof (cases "truthy (get_profile_dir s)")
  case False
  then show ?thesis
    by (simp add: clear_def Let_def get_profile_dir_def visited_dirs_def)
next
  case True
  let ?s1 = "s\<lparr>heap := (heap s)(ClassRecords := [])\<rparr>"
  let ?p = "the (get_profile_dir s)"
  have g: "glob_json (s\<lparr>heap := h\<rparr>) q = glob_json s q" for h q
    by (simp add: glob_json_def)
  have "filter (\<lambda>g. (d, fname g) \<notin> (\<lambda>df. (fst df, fname (snd df))) `
          {df \<in> set (glob_json s ?p). \<not> raises (fst df) (fname (snd df))}) (dirs s d) =
        (if d \<in> set (glob_dirs s ?p) then survivors raises d (dirs s d) else dirs s d)" for d
  proof -
    have "filter (\<lambda>g. (d, fname g) \<notin> (\<lambda>df. (fst df, fname (snd df))) `
          {df \<in> set (glob_json s ?p). \<not> raises (fst df) (fname (snd df))}) (dirs s d) =
        filter (\<lambda>g. \<not> (d \<in> set (glob_dirs s ?p) \<and> matches_json (fname g) \<and>
          \<not> raises d (fname g))) (dirs s d)"
      by (rule filter_cong [OF refl]) (simp only: removed_iff)
    also have "\<dots> = (if d \<in> set (glob_dirs s ?p) then survivors raises d (dirs s d)
        else dirs s d)"
      by (simp add: survivors_def)
    finally show ?thesis .
  qed
  then show ?thesis
    using True
    by (simp add: clear_def Let_def get_profile_dir_def fold_try_remove g visited_dirs_def)
qed

lemma visited_clear:
  "visited (clear raises s) = filter (\<lambda>df. raises (fst df) (fname (snd df))) (visited s)"
proof (cases "truthy (get_profile_dir s)")
  case False
  then show ?thesis by (simp add: visited_def clear_eq get_profile_dir_def)
next
  case True
  let ?ds = "glob_dirs s (the (environ s))"
  let ?M1 = "map (\<lambda>d. map (Pair d) (filter (\<lambda>f. matches_json (fname f))
         (if d \<in> set ?ds then survivors raises d (dirs s d) else dirs s d))) ?ds"
  let ?M2 = "map (\<lambda>d. filter (\<lambda>df. raises (fst df) (fname (snd df)))
        (map (Pair d) (filter (\<lambda>f. matches_json (fname f)) (dirs s d)))) ?ds"
  have e: "map (Pair d) (filter (\<lambda>f. matches_json (fname f)) (survivors raises d (dirs s d))) =
      filter (\<lambda>df. raises (fst df) (fname (snd df)))
        (map (Pair d) (filter (\<lambda>f. matches_json (fname f)) (dirs s d)))" for d
    by (auto simp: survivors_def filter_map comp_def intro!: filter_cong arg_cong [where f = "map (Pair _)"])
  have m: "?M1 = ?M2"
    by (rule map_cong [OF refl]) (simp add: e)
  have "visited (clear raises s) = concat ?M1"
    using True
    by (simp add: visited_def clear_eq get_profile_dir_def glob_json_def visited_dirs_def)
  also have "\<dots> = concat ?M2"
    by (simp only: m)
  also have "\<dots> = filter (\<lambda>df. raises (fst df) (fname (snd df))) (visited s)"
    using True
    by (simp add: visited_def get_profile_dir_def glob_json_def filter_concat comp_def)
  finally show ?thesis .
qed

lemma visited_clear_empty: "removals_succeed raises s \<Longrightarrow> visited (clear raises s) = []"
  by (simp add: visited_clear removals_succeed_def list_all_iff filter_empty_conv)

text \<open>
  Claim C6, as stated, fails: \<^verbatim>\<open>clear\<close> skips a file whose removal raises
  \<^verbatim>\<open>OSError\<close>, and it only visits the files that match \<^verbatim>\<open>*.json\<close>. In a store whose
  directory holds a record file that cannot be removed, the harvest that follows the clear
  returns that record.
\<close>

theorem clear_then_get_records_counterexample:
  "fst (get_records (clear ex_always_raises ex_stuck_world)) = Inr (Fresh 0) \<and>
   heap (snd (get_records (clear ex_always_raises ex_stuck_world))) (Fresh 0) =
     [item_of ex_record]"
proof -
  have v: "visited ex_stuck_world =
      [(''/tmp/profiles'',
        \<lparr>fname = ''prof_7_1700000000000001.json'', content = Parsed (item_of ex_record)\<rparr>)]"
    by (simp add: visited_def ex_stuck_world_def ex_shared_world_def ex_world_def
        get_profile_dir_def truthy_def glob_json_def matches_json_ex1 matches_json_ex2)
  have vc: "visited (clear ex_always_raises ex_stuck_world) = visited ex_stuck_world"
    by (simp add: visited_clear ex_always_raises_def)
  have d: "decodable (visited (clear ex_always_raises ex_stuck_world))"
    by (simp add: vc v decodable_def)
  note g = get_records_returns [OF d]
  have f: "fresh (clear ex_always_raises ex_stuck_world) = 0"
    by (simp add: clear_eq ex_stuck_world_def ex_shared_world_def ex_world_def)
  have h: "heap (clear ex_always_raises ex_stuck_world) ClassRecords = []"
    by (simp add: clear_eq)
  show ?thesis
    unfolding g by (simp add: f h vc v parsed_items_def)
qed

text \<open>
  Claim C6, amended. \<^verbatim>\<open>clear\<close> empties the in-process list and changes nothing else
  than the listings of the directories that the glob pattern selects (none when no directory
  is configured; the configured directory alone when its path holds no wildcard). Of such a
  listing it leaves, in their order, exactly the entries that do not match \<^verbatim>\<open>*.json\<close>
  and the entries whose removal raised. When no removal raises, the harvest that follows the
  clear returns a new, empty list.
\<close>

theorem clear_then_get_records:
  "clear raises s =
     s\<lparr>heap := (heap s)(ClassRecords := []),
       dirs := (\<lambda>d. if d \<in> set (visited_dirs s) then survivors raises d (dirs s d) else dirs s d)\<rparr> \<and>
   (removals_succeed raises s \<longrightarrow>
      fst (get_records (clear raises s)) = Inr (Fresh (fresh s)) \<and>
      heap (snd (get_records (clear raises s))) (Fresh (fresh s)) = [])"
proof (intro conjI impI)
  show "clear raises s =
     s\<lparr>heap := (heap s)(ClassRecords := []),
       dirs := (\<lambda>d. if d \<in> set (visited_dirs s) then survivors raises d (dirs s d) else dirs s d)\<rparr>"
    by (rule clear_eq)
next
  assume r: "removals_succeed raises s"
  then have v: "visited (clear raises s) = []" by (rule visited_clear_empty)
  then have d: "decodable (visited (clear raises s))" by (simp add: decodable_def)
  note g = get_records_returns [OF d]
  have f: "fresh (clear raises s) = fresh s"
    by (simp add: clear_eq)
  have h: "heap (clear raises s) ClassRecords = []"
    by (simp add: clear_eq)
  show "fst (get_records (clear raises s)) = Inr (Fresh (fresh s))"
    unfolding g by (simp add: f)
  show "heap (snd (get_records (clear raises s))) (Fresh (fresh s)) = []"
    unfolding g by (simp add: f h v parsed_items_def)
qed

theorem clear_then_get_records_witness:
  "removals_succeed ex_never_raises ex_stuck_world \<and>
   heap (clear ex_never_raises ex_stuck_world) ClassRecords = [] \<and>
   dirs (clear ex_never_raises ex_stuck_world) ''/tmp/profiles'' =
     [\<lparr>fname = ''notes.txt'', content = Unreadable\<rparr>] \<and>
   fst (get_records (clear ex_never_raises ex_stuck_world)) = Inr (Fresh 0) \<and>
   heap (snd (get_records (clear ex_never_raises ex_stuck_world))) (Fresh 0) = []"
proof -
  have v: "visited ex_stuck_world =
      [(''/tmp/profiles'',
        \<lparr>fname = ''prof_7_1700000000000001.json'', content = Parsed (item_of ex_record)\<rparr>)]"
    by (simp add: visited_def ex_stuck_world_def ex_shared_world_def ex_world_def
        get_profile_dir_def truthy_def glob_json_def matches_json_ex1 matches_json_ex2)
  have r: "removals_succeed ex_never_raises ex_stuck_world"
    by (simp add: removals_succeed_def v ex_never_raises_def)
  have f: "fresh ex_stuck_world = 0"
    by (simp add: ex_stuck_world_def ex_shared_world_def ex_world_def)
  have vd: "visited_dirs ex_stuck_world = [''/tmp/profiles'']"
    by (simp add: visited_dirs_def ex_stuck_world_def ex_shared_world_def ex_world_def
        get_profile_dir_def truthy_def)
  have d: "dirs ex_stuck_world ''/tmp/profiles'' =
      [\<lparr>fname = ''prof_7_1700000000000001.json'', content = Parsed (item_of ex_record)\<rparr>,
       \<lparr>fname = ''notes.txt'', content = Unreadable\<rparr>]"
    by (simp add: ex_stuck_world_def)
  note c1 = clear_then_get_records [of ex_never_raises ex_stuck_world, THEN conjunct1]
  note c2 = clear_then_get_records [of ex_never_raises ex_stuck_world, THEN conjunct2, rule_format, OF r]
  from c2 have 1: "fst (get_records (clear ex_never_raises ex_stuck_world)) = Inr (Fresh 0)"
    and 2: "heap (snd (get_records (clear ex_never_raises ex_stuck_world))) (Fresh 0) = []"
    by (simp_all only: f)
  have 3: "heap (clear ex_never_raises ex_stuck_world) ClassRecords = []"
    by (subst c1) simp
  have 4: "dirs (clear ex_never_raises ex_stuck_world) ''/tmp/profiles'' =
      [\<lparr>fname = ''notes.txt'', content = Unreadable\<rparr>]"
    by (subst c1)
      (simp add: vd d survivors_def matches_json_ex1 matches_json_ex2 ex_never_raises_def)
  from r 1 2 3 4 show ?thesis by simp
qed

subsection \<open>File names of records are injective\<close>

lemma lt10_cases: "d < 10 \<Longrightarrow> d \<in> {0, 1, 2, 3, 4, 5, 6, 7, 8, 9::nat}"
  by auto

lemma digit_val_digit_char: "d < 10 \<Longrightarrow> digit_val (digit_char d) = d"
  using lt10_cases [of d] by (auto simp: digit_val_def digit_char_def)

lemma digit_char_is_digit: "d < 10 \<Longrightarrow> digit_char d \<in> set ''0123456789''"
  unfolding digit_char_def by (rule nth_mem) simp

lemma str_nat_digits: "set (str_nat n) \<subseteq> set ''0123456789''"
proof (induction n rule: str_nat.induct)
  case (1 n)
  show ?case
  proof (cases "n < 10")
    case True
    then show ?thesis
      using digit_char_is_digit [of n] by (subst str_nat.simps) simp
  next
    case False
    have "n mod 10 < 10" by simp
    then show ?thesis
      using False 1 digit_char_is_digit [of "n mod 10"] by (subst str_nat.simps) simp
  qed
qed

lemma foldl_val_shift:
  "foldl (\<lambda>a c. 10 * a + digit_val c) a ys =
   a * 10 ^ length ys + foldl (\<lambda>a c. 10 * a + digit_val c) 0 ys"
proof (induction ys arbitrary: a)
  case Nil
  show ?case by simp
next
  case (Cons y ys)
  have "foldl (\<lambda>a c. 10 * a + digit_val c) a (y # ys) =
      (10 * a + digit_val y) * 10 ^ length ys + foldl (\<lambda>a c. 10 * a + digit_val c) 0 ys"
    using Cons.IH [of "10 * a + digit_val y"] by simp
  moreover have "foldl (\<lambda>a c. 10 * a + digit_val c) 0 (y # ys) =
      digit_val y * 10 ^ length ys + foldl (\<lambda>a c. 10 * a + digit_val c) 0 ys"
    using Cons.IH [of "digit_val y"] by simp
  ultimately show ?case by (simp add: algebra_simps)
qed

lemma str_val_append: "str_val (xs @ ys) = str_val xs * 10 ^ length ys + str_val ys"
  unfolding str_val_def foldl_append by (rule foldl_val_shift)

lemma str_val_single: "str_val [c] = digit_val c"
  by (simp add: str_val_def)

lemma str_val_str_nat: "str_val (str_nat n) = n"
proof (induction n rule: str_nat.induct)
  case (1 n)
  show ?case
  proof (cases "n < 10")
    case True
    then show ?thesis
      by (subst str_nat.simps) (simp add: str_val_single digit_val_digit_char)
  next
    case False
    have "str_val (str_nat n) = str_val (str_nat (n div 10) @ [digit_char (n mod 10)])"
      using False by (subst str_nat.simps) simp
    also have "\<dots> = (n div 10) * 10 + n mod 10"
      using False 1 by (simp add: str_val_append str_val_single digit_val_digit_char)
    finally show ?thesis by simp
  qed
qed

lemma str_val_zeros: "str_val (replicate k CHR ''0'') = 0"
proof (induction k)
  case 0
  show ?case by (simp add: str_val_def)
next
  case (Suc k)
  have "str_val (replicate (Suc k) CHR ''0'') = str_val ([CHR ''0''] @ replicate k CHR ''0'')"
    by simp
  also have "\<dots> = 0"
    unfolding str_val_append by (simp add: Suc str_val_single digit_val_def)
  finally show ?case .
qed

lemma length_str_nat: "0 < k \<Longrightarrow> n < 10 ^ k \<Longrightarrow> length (str_nat n) \<le> k"
proof (induction n arbitrary: k rule: str_nat.induct)
  case (1 n)
  show ?case
  proof (cases "n < 10")
    case True
    then show ?thesis using 1(2) by (subst str_nat.simps) simp
  next
    case False
    with 1(3) have k: "1 < k" by (cases k; cases "k - 1") auto
    then obtain j where j: "k = Suc j" "0 < j" by (cases k) auto
    from 1(3) j have "n div 10 < 10 ^ j" by (simp add: less_mult_imp_div_less mult.commute)
    with 1(1) [OF False j(2)] have "length (str_nat (n div 10)) \<le> j" by simp
    then show ?thesis using False j by (subst str_nat.simps) simp
  qed
qed

lemma length_pad6: "m < 1000000 \<Longrightarrow> length (pad6 m) = 6"
  using length_str_nat [of 6 m] by (simp add: pad6_def)

lemma str_val_pad6: "str_val (pad6 m) = m"
  by (simp add: pad6_def str_val_append str_val_zeros str_val_str_nat)

lemma str_val_ts_digits: "str_val (ts_digits us) = us"
  by (simp add: ts_digits_def str_val_append length_pad6 str_val_pad6 str_val_str_nat)

lemma ts_digits_inj: "ts_digits us = ts_digits us' \<Longrightarrow> us = us'"
  by (metis str_val_ts_digits)

lemma str_nat_inj: "str_nat m = str_nat n \<Longrightarrow> m = n"
  by (metis str_val_str_nat)

lemma underscore_not_digit: "CHR ''_'' \<notin> set (str_nat n)"
  using str_nat_digits [of n] by auto

lemma underscore_not_ts_digit: "CHR ''_'' \<notin> set (ts_digits us)"
  using str_nat_digits [of "us div 1000000"] str_nat_digits [of "us mod 1000000"]
  by (auto simp: ts_digits_def pad6_def)

lemma record_file_name_inj:
  "record_file_name p us = record_file_name p' us' \<longleftrightarrow> p = p' \<and> us = us'"
proof
  assume "record_file_name p us = record_file_name p' us'"
  then have "str_nat p @ CHR ''_'' # ts_digits us = str_nat p' @ CHR ''_'' # ts_digits us'"
    by (simp add: record_file_name_def)
  then have "str_nat p = str_nat p' \<and> ts_digits us = ts_digits us'"
    by (rule append_Cons_eq_iff [THEN iffD1, OF underscore_not_digit underscore_not_ts_digit])
  then show "p = p' \<and> us = us'"
    by (simp add: str_nat_inj ts_digits_inj)
qed simp

lemma matches_json_record_file_name: "matches_json (record_file_name p us)"
  by (simp add: matches_json_def record_file_name_def suffix_def)

subsection \<open>The sink of a record\<close>

lemma put_file_present:
  "n \<in> set (map fname fs) \<Longrightarrow>
   put_file n c fs = map (\<lambda>f. if fname f = n then f\<lparr>content := c\<rparr> else f) fs"
  by (simp add: put_file_def)

lemma put_file_absent:
  "n \<notin> set (map fname fs) \<Longrightarrow> put_file n c fs = fs @ [\<lparr>fname = n, content = c\<rparr>]"
  by (simp add: put_file_def)

lemma put_file_names: "n \<in> set (map fname (put_file n c fs))"
proof (cases "n \<in> set (map fname fs)")
  case True
  have "map fname (map (\<lambda>f. if fname f = n then f\<lparr>content := c\<rparr> else f) fs) = map fname fs"
    by (induction fs) simp_all
  with True show ?thesis by (simp only: put_file_present [OF True])
next
  case False
  then show ?thesis by (simp add: put_file_absent)
qed

lemma put_file_content:
  assumes "f \<in> set (put_file n c fs)" and "fname f = n"
  shows "content f = c"
proof (cases "n \<in> set (map fname fs)")
  case True
  from assms(1) have "\<exists>g\<in>set fs. f = (if fname g = n then g\<lparr>content := c\<rparr> else g)"
    unfolding put_file_present [OF True] set_map image_iff .
  then obtain g where "f = (if fname g = n then g\<lparr>content := c\<rparr> else g)" by blast
  with assms(2) show ?thesis by (cases "fname g = n") simp_all
next
  case False
  with assms have "f = \<lparr>fname = n, content = c\<rparr>"
    unfolding put_file_absent [OF False] by auto
  then show ?thesis by simp
qed

lemma put_file_holds:
  "list_ex (\<lambda>f. fname f = n) (put_file n c fs) \<and>
   list_all (\<lambda>f. fname f = n \<longrightarrow> content f = c) (put_file n c fs)"
  using put_file_names [of n c fs] put_file_content [of _ n c fs]
  by (auto simp: list_ex_iff list_all_iff)

lemma filter_upd_others:
  "filter (\<lambda>f. fname f \<noteq> n) (map (\<lambda>f. if fname f = n then f\<lparr>content := c\<rparr> else f) fs) =
   filter (\<lambda>f. fname f \<noteq> n) fs"
  by (induction fs) simp_all

lemma put_file_others:
  "filter (\<lambda>f. fname f \<noteq> n) (put_file n c fs) = filter (\<lambda>f. fname f \<noteq> n) fs"
proof (cases "n \<in> set (map fname fs)")
  case True
  show ?thesis by (simp only: put_file_present [OF True] filter_upd_others)
next
  case False
  show ?thesis by (simp add: put_file_absent [OF False])
qed

lemma put_file_None_old:
  assumes "f \<in> set (put_file n Unreadable fs)" and "content f = Parsed v"
  shows "f \<in> set fs"
proof (cases "n \<in> set (map fname fs)")
  case True
  from assms(1) have "\<exists>g\<in>set fs. f = (if fname g = n then g\<lparr>content := Unreadable\<rparr> else g)"
    unfolding put_file_present [OF True] set_map image_iff .
  then obtain g where g: "g \<in> set fs"
      "f = (if fname g = n then g\<lparr>content := Unreadable\<rparr> else g)" by blast
  with assms(2) show ?thesis by (cases "fname g = n") simp_all
next
  case False
  with assms show ?thesis
    unfolding put_file_absent [OF False] by auto
qed

lemma profile_returns:
  assumes "\<not> lock_held s" and "func args (s\<lparr>lock_held := True\<rparr>) = Some (Inr v, s1)"
    and "EnergySensor_exit ops (warn env) (rapl env) = Inr m"
  shows "profile ops (Some label) func env args s =
     Some (Inr v, emit_record env (built_record label env m)
                    (show_warning label m (s1\<lparr>lock_held := False\<rparr>)))"
  using assms by (simp add: profile_def built_record_def Let_def)

lemma emit_record_memory:
  "\<not> truthy (get_profile_dir s) \<Longrightarrow>
   emit_record env r s = s\<lparr>heap := (heap s)(ClassRecords := heap s ClassRecords @ [item_of r])\<rparr>"
  by (simp add: emit_record_def Let_def)

lemma emit_record_dir:
  "truthy (get_profile_dir s) \<Longrightarrow>
   emit_record env r s =
     write_record (write_res env) (the (get_profile_dir s))
       (record_file_name (env_pid env) (now_us env)) r s"
  by (simp add: emit_record_def Let_def)

lemma show_warning_frame:
  "heap (show_warning label m s) = heap s" "dirs (show_warning label m s) = dirs s"
  "environ (show_warning label m s) = environ s"
  "get_profile_dir (show_warning label m s) = get_profile_dir s"
  "lock_held (show_warning label m s) = lock_held s"
  by (simp_all add: show_warning_def get_profile_dir_def)

lemma unlocked_frame:
  "get_profile_dir (s\<lparr>lock_held := b\<rparr>) = get_profile_dir s"
  by (simp add: get_profile_dir_def)

lemma profile_sink_file:
  assumes "\<not> lock_held s" and "func args (s\<lparr>lock_held := True\<rparr>) = Some (Inr v, s1)"
    and "EnergySensor_exit ops (warn env) (rapl env) = Inr m"
    and "truthy (get_profile_dir s1)" and "write_res env = WriteOk"
  shows "file_holds (snd (the (profile ops (Some label) func env args s))) (the (get_profile_dir s1))
           (record_file_name (env_pid env) (now_us env)) (item_of (built_record label env m)) \<and>
         matches_json (record_file_name (env_pid env) (now_us env)) \<and>
         filter (\<lambda>f. fname f \<noteq> record_file_name (env_pid env) (now_us env))
            (dirs (snd (the (profile ops (Some label) func env args s))) (the (get_profile_dir s1))) =
         filter (\<lambda>f. fname f \<noteq> record_file_name (env_pid env) (now_us env))
            (dirs s1 (the (get_profile_dir s1))) \<and>
         (\<forall>d. d \<noteq> the (get_profile_dir s1) \<longrightarrow>
            dirs (snd (the (profile ops (Some label) func env args s))) d = dirs s1 d) \<and>
         heap (snd (the (profile ops (Some label) func env args s))) = heap s1"
proof -
  let ?s = "show_warning label m (s1\<lparr>lock_held := False\<rparr>)"
  have t: "truthy (get_profile_dir ?s)" and g: "get_profile_dir ?s = get_profile_dir s1"
    using assms(4) by (simp_all add: show_warning_frame unlocked_frame)
  have "profile ops (Some label) func env args s =
      Some (Inr v, emit_record env (built_record label env m) ?s)"
    using assms(1,2,3) by (rule profile_returns)
  then have s2: "snd (the (profile ops (Some label) func env args s)) =
      ?s\<lparr>dirs := (dirs ?s)(the (get_profile_dir s1) :=
        put_file (record_file_name (env_pid env) (now_us env))
          (Parsed (item_of (built_record label env m))) (dirs ?s (the (get_profile_dir s1))))\<rparr>"
    using assms(5) by (simp add: emit_record_dir [OF t] g write_record_def)
  show ?thesis
    unfolding s2 file_holds_def
    by (simp add: put_file_holds put_file_others matches_json_record_file_name show_warning_frame)
qed

lemma profile_sink_dropped:
  assumes "\<not> lock_held s" and "func args (s\<lparr>lock_held := True\<rparr>) = Some (Inr v, s1)"
    and "EnergySensor_exit ops (warn env) (rapl env) = Inr m"
    and "truthy (get_profile_dir s1)" and "write_res env \<noteq> WriteOk"
  shows "heap (snd (the (profile ops (Some label) func env args s))) = heap s1 \<and>
         (\<forall>d f. f \<in> set (dirs (snd (the (profile ops (Some label) func env args s))) d) \<longrightarrow>
                content f = Parsed (item_of (built_record label env m)) \<longrightarrow> f \<in> set (dirs s1 d)) \<and>
         WriteFailedWarning (the (get_profile_dir s1)) (record_file_name (env_pid env) (now_us env))
           \<in> set (messages (snd (the (profile ops (Some label) func env args s))))"
proof -
  let ?s = "show_warning label m (s1\<lparr>lock_held := False\<rparr>)"
  let ?n = "record_file_name (env_pid env) (now_us env)"
  have t: "truthy (get_profile_dir ?s)" and g: "get_profile_dir ?s = get_profile_dir s1"
    using assms(4) by (simp_all add: show_warning_frame unlocked_frame)
  have r: "profile ops (Some label) func env args s =
      Some (Inr v, emit_record env (built_record label env m) ?s)"
    using assms(1,2,3) by (rule profile_returns)
  show ?thesis
  proof (cases "write_res env")
    case WriteOk
    with assms(5) show ?thesis by simp
  next
    case OpenRaises
    then show ?thesis
      by (simp add: r emit_record_dir [OF t] g write_record_def show_warning_frame unlocked_frame)
  next
    case DumpRaises
    then have s2: "snd (the (profile ops (Some label) func env args s)) =
        ?s\<lparr>dirs := (dirs ?s)(the (get_profile_dir s1) :=
              put_file ?n Unreadable (dirs ?s (the (get_profile_dir s1)))),
           messages := messages ?s @ [WriteFailedWarning (the (get_profile_dir s1)) ?n]\<rparr>"
      by (simp add: r emit_record_dir [OF t] g write_record_def unlocked_frame)
    show ?thesis
    proof (intro conjI allI impI)
      show "heap (snd (the (profile ops (Some label) func env args s))) = heap s1"
        by (simp add: s2 show_warning_frame)
    next
      fix d f
      assume f: "f \<in> set (dirs (snd (the (profile ops (Some label) func env args s))) d)"
        and c: "content f = Parsed (item_of (built_record label env m))"
      show "f \<in> set (dirs s1 d)"
      proof (cases "d = the (get_profile_dir s1)")
        case True
        with f have "f \<in> set (put_file ?n Unreadable (dirs s1 (the (get_profile_dir s1))))"
          by (simp add: s2 show_warning_frame)
        then show ?thesis
          using c True by (simp add: put_file_None_old)
      next
        case False
        with f show ?thesis by (simp add: s2 show_warning_frame)
      qed
    next
      show "WriteFailedWarning (the (get_profile_dir s1)) ?n
          \<in> set (messages (snd (the (profile ops (Some label) func env args s))))"
        by (simp add: s2)
    qed
  qed
qed

lemma profile_sink_memory:
  assumes "\<not> lock_held s" and "func args (s\<lparr>lock_held := True\<rparr>) = Some (Inr v, s1)"
    and "EnergySensor_exit ops (warn env) (rapl env) = Inr m"
    and "\<not> truthy (get_profile_dir s1)"
  shows "heap (snd (the (profile ops (Some label) func env args s))) =
           (heap s1)(ClassRecords := heap s1 ClassRecords @ [item_of (built_record label env m)]) \<and>
         dirs (snd (the (profile ops (Some label) func env args s))) = dirs s1"
proof -
  let ?s = "show_warning label m (s1\<lparr>lock_held := False\<rparr>)"
  have t: "\<not> truthy (get_profile_dir ?s)"
    using assms(4) by (simp add: show_warning_frame unlocked_frame)
  have "profile ops (Some label) func env args s =
      Some (Inr v, emit_record env (built_record label env m) ?s)"
    using assms(1,2,3) by (rule profile_returns)
  then show ?thesis by (simp add: emit_record_memory [OF t] show_warning_frame)
qed

text \<open>
  Claim C7, as stated, fails: the wrapper catches an \<^verbatim>\<open>IOError\<close> raised while the
  record file is written, prints a warning and goes on. With a directory configured and a
  file that cannot be opened, the call returns its value and the record is in neither sink.
\<close>

theorem profile_sink_counterexample:
  "truthy (get_profile_dir ex_shared_world) \<and>
   fst (the (profile ex_ops (Some ''work'') ex_body ex_failing_env 21 ex_shared_world)) = Inr 42 \<and>
   heap (snd (the (profile ex_ops (Some ''work'') ex_body ex_failing_env 21 ex_shared_world)))
     ClassRecords = [] \<and>
   dirs (snd (the (profile ex_ops (Some ''work'') ex_body ex_failing_env 21 ex_shared_world)))
     ''/tmp/profiles'' = []"
  by (simp add: profile_def ex_body_def ex_exit_failing show_warning_def emit_record_def
      write_record_def Let_def truthy_def get_profile_dir_def ex_shared_world_def ex_world_def)
    (simp add: ex_failing_env_def)

text \<open>
  Claim C7, amended. For a call that returns (the callable has a name, the lock is free, the
  body returns and the exit of the capture does not raise): when a non-empty directory path is
  configured and the write succeeds, the record is held by the file of that directory whose
  name is built from the process id and the timestamp (a name that the harvest matches), no
  other file and no list object changes; when the write raises, the record is dropped with a
  printed warning: no list object changes and no file comes to hold the record; when no
  directory is configured (the variable is absent or empty), the record is appended to the
  in-process list and no directory changes. So at most one sink receives the record, and
  exactly one unless the write raises. The file name determines the process id and the
  microsecond timestamp: two records get the same name only when they come from the same
  process id at the same timestamp.
\<close>

theorem profile_sink:
  assumes "\<not> lock_held s" and "func args (s\<lparr>lock_held := True\<rparr>) = Some (Inr v, s1)"
    and "EnergySensor_exit ops (warn env) (rapl env) = Inr m"
  shows "profile ops (Some label) func env args s \<noteq> None \<and>
         fst (the (profile ops (Some label) func env args s)) = Inr v \<and>
         (truthy (get_profile_dir s1) \<and> write_res env = WriteOk \<longrightarrow>
            file_holds (snd (the (profile ops (Some label) func env args s))) (the (get_profile_dir s1))
              (record_file_name (env_pid env) (now_us env)) (item_of (built_record label env m)) \<and>
            matches_json (record_file_name (env_pid env) (now_us env)) \<and>
            filter (\<lambda>f. fname f \<noteq> record_file_name (env_pid env) (now_us env))
               (dirs (snd (the (profile ops (Some label) func env args s))) (the (get_profile_dir s1))) =
            filter (\<lambda>f. fname f \<noteq> record_file_name (env_pid env) (now_us env))
               (dirs s1 (the (get_profile_dir s1))) \<and>
            (\<forall>d. d \<noteq> the (get_profile_dir s1) \<longrightarrow>
               dirs (snd (the (profile ops (Some label) func env args s))) d = dirs s1 d) \<and>
            heap (snd (the (profile ops (Some label) func env args s))) = heap s1) \<and>
         (truthy (get_profile_dir s1) \<and> write_res env \<noteq> WriteOk \<longrightarrow>
            heap (snd (the (profile ops (Some label) func env args s))) = heap s1 \<and>
            (\<forall>d f. f \<in> set (dirs (snd (the (profile ops (Some label) func env args s))) d) \<longrightarrow>
                   content f = Parsed (item_of (built_record label env m)) \<longrightarrow> f \<in> set (dirs s1 d)) \<and>
            WriteFailedWarning (the (get_profile_dir s1)) (record_file_name (env_pid env) (now_us env))
              \<in> set (messages (snd (the (profile ops (Some label) func env args s))))) \<and>
         (\<not> truthy (get_profile_dir s1) \<longrightarrow>
            heap (snd (the (profile ops (Some label) func env args s))) =
              (heap s1)(ClassRecords := heap s1 ClassRecords @ [item_of (built_record label env m)]) \<and>
            dirs (snd (the (profile ops (Some label) func env args s))) = dirs s1) \<and>
         (\<forall>p us p' us'. record_file_name p us = record_file_name p' us' \<longleftrightarrow> p = p' \<and> us = us')"
proof -
  note a = assms
  have "profile ops (Some label) func env args s =
      Some (Inr v, emit_record env (built_record label env m)
                     (show_warning label m (s1\<lparr>lock_held := False\<rparr>)))"
    using a by (rule profile_returns)
  then have 0: "profile ops (Some label) func env args s \<noteq> None \<and>
         fst (the (profile ops (Some label) func env args s)) = Inr v"
    by simp
  have 1: "truthy (get_profile_dir s1) \<and> write_res env = WriteOk \<longrightarrow>
            file_holds (snd (the (profile ops (Some label) func env args s))) (the (get_profile_dir s1))
              (record_file_name (env_pid env) (now_us env)) (item_of (built_record label env m)) \<and>
            matches_json (record_file_name (env_pid env) (now_us env)) \<and>
            filter (\<lambda>f. fname f \<noteq> record_file_name (env_pid env) (now_us env))
               (dirs (snd (the (profile ops (Some label) func env args s))) (the (get_profile_dir s1))) =
            filter (\<lambda>f. fname f \<noteq> record_file_name (env_pid env) (now_us env))
               (dirs s1 (the (get_profile_dir s1))) \<and>
            (\<forall>d. d \<noteq> the (get_profile_dir s1) \<longrightarrow>
               dirs (snd (the (profile ops (Some label) func env args s))) d = dirs s1 d) \<and>
            heap (snd (the (profile ops (Some label) func env args s))) = heap s1"
    using a by (intro impI, elim conjE) (rule profile_sink_file)
  have 2: "truthy (get_profile_dir s1) \<and> write_res env \<noteq> WriteOk \<longrightarrow>
            heap (snd (the (profile ops (Some label) func env args s))) = heap s1 \<and>
            (\<forall>d f. f \<in> set (dirs (snd (the (profile ops (Some label) func env args s))) d) \<longrightarrow>
                   content f = Parsed (item_of (built_record label env m)) \<longrightarrow> f \<in> set (dirs s1 d)) \<and>
            WriteFailedWarning (the (get_profile_dir s1)) (record_file_name (env_pid env) (now_us env))
              \<in> set (messages (snd (the (profile ops (Some label) func env args s))))"
    using a by (intro impI, elim conjE) (rule profile_sink_dropped)
  have 3: "\<not> truthy (get_profile_dir s1) \<longrightarrow>
            heap (snd (the (profile ops (Some label) func env args s))) =
              (heap s1)(ClassRecords := heap s1 ClassRecords @ [item_of (built_record label env m)]) \<and>
            dirs (snd (the (profile ops (Some label) func env args s))) = dirs s1"
    using a by (intro impI) (rule profile_sink_memory)
  have 4: "\<forall>p us p' us'. record_file_name p us = record_file_name p' us' \<longleftrightarrow> p = p' \<and> us = us'"
    by (simp add: record_file_name_inj)
  from 0 1 2 3 4 show ?thesis by (intro conjI) simp_all
qed

lemma str_nat_ex1: "str_nat 7 = ''7''"
  by (simp add: str_nat.simps digit_char_def)

lemma str_nat_ex2: "str_nat 1700000000 = ''1700000000''"
  by (simp add: str_nat.simps digit_char_def)

lemma pad6_ex: "pad6 1 = ''000001''"
  by (simp add: pad6_def str_nat.simps digit_char_def numeral_eq_Suc)

lemma record_file_name_ex: "record_file_name 7 1700000000000001 = ''prof_7_1700000000000001.json''"
  using pad6_ex by (simp add: record_file_name_def ts_digits_def str_nat_ex1 str_nat_ex2)

lemma built_record_ex:
  "built_record ''work'' ex_env \<lparr>meas_energy_j = 4, zero_warning = False\<rparr> = ex_record"
  by (simp add: built_record_def ex_env_def ex_record_def)

lemma built_record_ex_failing:
  "built_record ''work'' ex_failing_env \<lparr>meas_energy_j = 4, zero_warning = False\<rparr> = ex_record"
  by (simp add: built_record_def ex_failing_env_def ex_env_def ex_record_def)

theorem profile_sink_witness:
  "\<not> lock_held ex_shared_world \<and>
   ex_body 21 (ex_shared_world\<lparr>lock_held := True\<rparr>) =
     Some (Inr 42, ex_shared_world\<lparr>lock_held := True\<rparr>) \<and>
   EnergySensor_exit ex_ops (warn ex_env) (rapl ex_env) =
     Inr \<lparr>meas_energy_j = 4, zero_warning = False\<rparr> \<and>
   truthy (get_profile_dir (ex_shared_world\<lparr>lock_held := True\<rparr>)) \<and> write_res ex_env = WriteOk \<and>
   fst (the (profile ex_ops (Some ''work'') ex_body ex_env 21 ex_shared_world)) = Inr 42 \<and>
   file_holds (snd (the (profile ex_ops (Some ''work'') ex_body ex_env 21 ex_shared_world)))
     ''/tmp/profiles'' ''prof_7_1700000000000001.json'' (item_of ex_record) \<and>
   heap (snd (the (profile ex_ops (Some ''work'') ex_body ex_env 21 ex_shared_world))) ClassRecords = [] \<and>
   write_res ex_failing_env \<noteq> WriteOk \<and>
   heap (snd (the (profile ex_ops (Some ''work'') ex_body ex_failing_env 21 ex_shared_world)))
     ClassRecords = [] \<and>
   WriteFailedWarning ''/tmp/profiles'' ''prof_7_1700000000000001.json''
     \<in> set (messages (snd (the (profile ex_ops (Some ''work'') ex_body ex_failing_env 21 ex_shared_world)))) \<and>
   \<not> lock_held ex_world \<and>
   ex_body 21 (ex_world\<lparr>lock_held := True\<rparr>) = Some (Inr 42, ex_world\<lparr>lock_held := True\<rparr>) \<and>
   \<not> truthy (get_profile_dir (ex_world\<lparr>lock_held := True\<rparr>)) \<and>
   heap (snd (the (profile ex_ops (Some ''work'') ex_body ex_env 21 ex_world))) ClassRecords =
     [item_of ex_record] \<and>
   dirs (snd (the (profile ex_ops (Some ''work'') ex_body ex_env 21 ex_world))) = dirs ex_world"
proof -
  let ?sw = "ex_shared_world\<lparr>lock_held := True\<rparr>"
  let ?w = "ex_world\<lparr>lock_held := True\<rparr>"
  let ?m = "\<lparr>meas_energy_j = 4 :: real, zero_warning = False\<rparr>"
  have l1: "\<not> lock_held ex_shared_world" and l2: "\<not> lock_held ex_world"
    by (simp_all add: ex_world_lock)
  have b1: "ex_body 21 ?sw = Some (Inr 42, ?sw)"
    by (simp add: ex_body_def)
  have b2: "ex_body 21 ?w = Some (Inr 42, ?w)"
    by (simp add: ex_body_def)
  have t1: "truthy (get_profile_dir ?sw)"
    by (simp add: truthy_def get_profile_dir_def ex_shared_world_def ex_world_def)
  have t2: "\<not> truthy (get_profile_dir ?w)"
    by (simp add: truthy_def get_profile_dir_def ex_world_def)
  have d: "the (get_profile_dir ?sw) = ''/tmp/profiles''"
    by (simp add: get_profile_dir_def ex_shared_world_def ex_world_def)
  have w1: "write_res ex_env = WriteOk"
    by (simp add: ex_env_def)
  have n: "record_file_name (env_pid ex_env) (now_us ex_env) = ''prof_7_1700000000000001.json''"
    by (simp add: ex_env_def record_file_name_ex)
  have n': "record_file_name (env_pid ex_failing_env) (now_us ex_failing_env) =
      ''prof_7_1700000000000001.json''"
    by (simp add: ex_failing_env_def ex_env_def record_file_name_ex)
  have w2: "write_res ex_failing_env \<noteq> WriteOk"
    by (simp add: ex_failing_env_def)
  have h1: "heap ?sw ClassRecords = []"
    by (simp add: ex_shared_world_def ex_world_def)
  have h2: "heap ?w ClassRecords = []" "dirs ?w = dirs ex_world"
    by (simp_all add: ex_world_def)
  note p1 = profile_sink [where s = ex_shared_world and func = ex_body and args = 21 and v = 42
      and ?s1.0 = ?sw and ops = ex_ops and env = ex_env and m = ?m and label = "''work''",
      OF l1 b1 ex_exit]
  note p2 = profile_sink [where s = ex_shared_world and func = ex_body and args = 21 and v = 42
      and ?s1.0 = ?sw and ops = ex_ops and env = ex_failing_env and m = ?m and label = "''work''",
      OF l1 b1 ex_exit_failing]
  note p3 = profile_sink [where s = ex_world and func = ex_body and args = 21 and v = 42
      and ?s1.0 = ?w and ops = ex_ops and env = ex_env and m = ?m and label = "''work''",
      OF l2 b2 ex_exit]
  from p1 t1 w1 have c0: "fst (the (profile ex_ops (Some ''work'') ex_body ex_env 21 ex_shared_world)) = Inr 42"
    and c1: "file_holds (snd (the (profile ex_ops (Some ''work'') ex_body ex_env 21 ex_shared_world)))
       ''/tmp/profiles'' ''prof_7_1700000000000001.json'' (item_of ex_record)"
    and c2: "heap (snd (the (profile ex_ops (Some ''work'') ex_body ex_env 21 ex_shared_world)))
       ClassRecords = []"
    unfolding d n built_record_ex by (simp_all only: h1 simp_thms)
  from p2 t1 w2 have c3:
    "heap (snd (the (profile ex_ops (Some ''work'') ex_body ex_failing_env 21 ex_shared_world)))
       ClassRecords = []"
    and c3': "WriteFailedWarning ''/tmp/profiles'' ''prof_7_1700000000000001.json''
     \<in> set (messages (snd (the (profile ex_ops (Some ''work'') ex_body ex_failing_env 21 ex_shared_world))))"
    unfolding d n' by (simp_all only: h1 simp_thms)
  from p3 t2 have c4:
    "heap (snd (the (profile ex_ops (Some ''work'') ex_body ex_env 21 ex_world))) ClassRecords =
       [item_of ex_record]"
    and c5: "dirs (snd (the (profile ex_ops (Some ''work'') ex_body ex_env 21 ex_world))) = dirs ex_world"
    unfolding built_record_ex by (simp_all only: h2 simp_thms fun_upd_same append_Nil)
  from l1 l2 b1 b2 t1 t2 w1 w2 c0 c1 c2 c3 c3' c4 c5 ex_exit show ?thesis by (intro conjI)
qed

section \<open>Properties of the aggregation and of the persister\<close>

subsection \<open>Aggregation by function name\<close>

lemma map_of_map_upd:
  "map_of (map (\<lambda>(k, d). if k = name then (k, f d) else (k, d)) xs) n =
   (if n = name then map_option f (map_of xs n) else map_of xs n)"
  by (induction xs) auto

lemma map_fst_map_upd:
  "map fst (map (\<lambda>(k, d). if k = name then (k, f d) else (k, d)) xs) = map fst xs"
  by (induction xs) auto

lemma agg_step_eq:
  "agg_step agg rec =
     map (\<lambda>(n, d). if n = func_name rec then (n, bump d rec) else (n, d))
       (if func_name rec \<notin> set (map fst agg) then agg @ [(func_name rec, zero_entry)] else agg)"
  by (simp add: agg_step_def Let_def bump_def zero_entry_def case_prod_beta)

lemma map_fst_agg_step:
  "map fst (agg_step agg rec) =
     (if func_name rec \<in> set (map fst agg) then map fst agg else map fst agg @ [func_name rec])"
  unfolding agg_step_eq map_fst_map_upd by simp

lemma distinct_agg_step:
  "distinct (map fst agg) \<Longrightarrow> distinct (map fst (agg_step agg rec))"
  by (simp add: map_fst_agg_step)

lemma map_of_agg_step:
  "map_of (agg_step agg rec) n =
     (if n = func_name rec
      then Some (bump (case map_of agg n of None \<Rightarrow> zero_entry | Some d \<Rightarrow> d) rec)
      else map_of agg n)"
proof (cases "func_name rec \<in> set (map fst agg)")
  case True
  then obtain d where "map_of agg (func_name rec) = Some d"
    by (metis map_of_eq_None_iff not_Some_eq set_map)
  with True show ?thesis unfolding agg_step_eq map_of_map_upd by simp
next
  case False
  then have "map_of agg (func_name rec) = None"
    by (simp add: map_of_eq_None_iff)
  with False show ?thesis unfolding agg_step_eq map_of_map_upd by (auto simp: map_add_def split: option.splits)
qed

lemma foldl_agg_step_keys:
  "set (map fst (foldl agg_step agg recs)) = set (map fst agg) \<union> func_name ` set recs"
proof (induction recs arbitrary: agg)
  case Nil
  show ?case by simp
next
  case (Cons r recs)
  from Cons.IH [of "agg_step agg r"]
  have "set (map fst (foldl agg_step agg (r # recs))) =
      set (map fst (agg_step agg r)) \<union> func_name ` set recs"
    by (simp only: foldl_Cons)
  then show ?case unfolding map_fst_agg_step by auto
qed

lemma distinct_foldl_agg_step:
  "distinct (map fst agg) \<Longrightarrow> distinct (map fst (foldl agg_step agg recs))"
  by (induction recs arbitrary: agg) (simp_all add: distinct_agg_step)

lemma map_of_foldl_agg_step:
  "map_of (foldl agg_step agg recs) n =
     (case map_of agg n of
        Some d \<Rightarrow> Some (foldl bump d (filter (\<lambda>r. func_name r = n) recs))
      | None \<Rightarrow> (case filter (\<lambda>r. func_name r = n) recs of
                   [] \<Rightarrow> None
                 | r # rs \<Rightarrow> Some (foldl bump zero_entry (r # rs))))"
proof (induction recs arbitrary: agg)
  case Nil
  show ?case by (simp split: option.splits)
next
  case (Cons rec recs)
  show ?case
    by (simp add: Cons.IH map_of_agg_step split: option.splits list.splits)
qed

lemma foldl_bump:
  "foldl bump d rs =
     \<lparr>agg_count = agg_count d + int (length rs),
      agg_energy_j = foldl (+) (agg_energy_j d) (map energy_j rs),
      agg_elapsed_ns = agg_elapsed_ns d + sum_list (map elapsed_ns rs)\<rparr>"
  by (induction rs arbitrary: d) (simp_all add: bump_def)

lemma map_of_aggregate:
  "map_of (aggregate recs) n =
     (if n \<in> func_name ` set recs
      then Some \<lparr>agg_count = int (length (filter (\<lambda>r. func_name r = n) recs)),
                 agg_energy_j = py_sum (map energy_j (filter (\<lambda>r. func_name r = n) recs)),
                 agg_elapsed_ns = sum_list (map elapsed_ns (filter (\<lambda>r. func_name r = n) recs))\<rparr>
      else None)"
proof (cases "filter (\<lambda>r. func_name r = n) recs")
  case Nil
  then have "n \<notin> func_name ` set recs"
    by (auto simp: filter_empty_conv)
  with Nil show ?thesis by (simp add: aggregate_def map_of_foldl_agg_step)
next
  case (Cons r rs)
  then have "r \<in> set (filter (\<lambda>r. func_name r = n) recs)" by simp
  then have n: "n \<in> func_name ` set recs" by auto
  have e: "foldl bump zero_entry (r # rs) =
      \<lparr>agg_count = int (length (r # rs)), agg_energy_j = py_sum (map energy_j (r # rs)),
       agg_elapsed_ns = sum_list (map elapsed_ns (r # rs))\<rparr>"
    unfolding foldl_bump py_sum_def by (simp add: zero_entry_def)
  have m: "map_of (aggregate recs) n = Some (foldl bump zero_entry (r # rs))"
    using Cons by (simp add: aggregate_def map_of_foldl_agg_step del: foldl_Cons)
  show ?thesis
    unfolding m Cons e using n by simp
qed

lemma distinct_aggregate: "distinct (map fst (aggregate recs))"
  by (simp add: aggregate_def distinct_foldl_agg_step)

lemma set_aggregate_keys: "set (map fst (aggregate recs)) = func_name ` set recs"
  unfolding aggregate_def foldl_agg_step_keys by simp

subsection \<open>Destination files\<close>

lemma splitext_append: "splitext p = (b, e) \<Longrightarrow> b @ e = p"
  by (auto simp: splitext_def Let_def split: if_splits)

lemma length_profiles_file: "length (profiles_file out) = length out + 9"
  using splitext_append [of out "fst (splitext out)" "snd (splitext out)"]
  by (cases "splitext out") (auto simp: profiles_file_def dest: arg_cong [where f = length])

lemma length_detailed_profiles_file: "length (detailed_profiles_file out) = length out + 18"
  using splitext_append [of out "fst (splitext out)" "snd (splitext out)"]
  by (cases "splitext out") (auto simp: detailed_profiles_file_def dest: arg_cong [where f = length])

lemma paths_distinct:
  "profiles_file out \<noteq> out" "detailed_profiles_file out \<noteq> out"
  "detailed_profiles_file out \<noteq> profiles_file out"
  "out \<noteq> profiles_file out" "out \<noteq> detailed_profiles_file out"
  "profiles_file out \<noteq> detailed_profiles_file out"
  using length_profiles_file [of out] length_detailed_profiles_file [of out]
  by (auto dest: arg_cong [where f = length])

lemma writerow_append_lines: "writerow p l fs = append_lines p [l] fs"
  by (simp add: writerow_def append_lines_def lines_of_def split: option.splits)

lemma lines_of_append_lines:
  "lines_of (append_lines p ls fs) q = (if q = p then lines_of fs p @ ls else lines_of fs q)"
  by (simp add: append_lines_def lines_of_def)

lemma append_lines_other: "q \<noteq> p \<Longrightarrow> append_lines p ls fs q = fs q"
  by (simp add: append_lines_def)

lemma append_lines_same: "append_lines p ls fs p = Some (lines_of fs p @ ls)"
  by (simp add: append_lines_def)

lemma append_lines_append_lines:
  "append_lines p b (append_lines p a fs) = append_lines p (a @ b) fs"
  by (simp add: append_lines_def lines_of_def fun_eq_iff)

lemma append_lines_Nil: "fs p \<noteq> None \<Longrightarrow> append_lines p [] fs = fs"
  by (auto simp: append_lines_def lines_of_def fun_eq_iff)

lemma fold_writerow:
  "fs p \<noteq> None \<Longrightarrow> fold (\<lambda>x. writerow p (g x)) xs fs = append_lines p (map g xs) fs"
proof (induction xs arbitrary: fs)
  case Nil
  then show ?case by (simp add: append_lines_Nil)
next
  case (Cons x xs)
  have "writerow p (g x) fs p \<noteq> None"
    by (simp add: writerow_append_lines append_lines_same)
  then show ?case
    by (simp add: Cons.IH) (simp add: writerow_append_lines append_lines_append_lines)
qed

lemma iter_profiles_items_of:
  "iter_profiles (dict_get_or result ''function_profiles'' (PItems [])) = Inr its \<Longrightarrow>
   its = items_of result"
  by (cases "dict_get_or result ''function_profiles'' (PItems [])")
    (auto simp: iter_profiles_def items_of_def split: list.splits)

lemma agg_input_Inr: "agg_input it = Inr r \<Longrightarrow> r = rec_of it"
  by (auto simp: agg_input_def rec_of_def split: item.splits option.splits)

lemma agg_inputs_Inr: "agg_inputs its = Inr rs \<Longrightarrow> rs = map rec_of its"
proof (induction its arbitrary: rs)
  case Nil
  then show ?case by simp
next
  case (Cons it its)
  then show ?case
    by (auto split: sum.splits dest: agg_input_Inr)
qed

lemma complete_rec_of:
  "complete it \<Longrightarrow> \<exists>n e t. it = Obj (Some n) (Some e) (Some t) \<and>
     rec_of it = \<lparr>func_name = n, energy_j = e, elapsed_ns = t\<rparr>"
  by (auto simp: complete_def rec_of_def split: item.splits option.splits)

lemma write_details_Inr:
  "write_details p u its fs = (Inr x, fs') \<Longrightarrow> fs p \<noteq> None \<Longrightarrow>
   list_all complete its \<and> fs' = append_lines p (map (detail_row u) (map rec_of its)) fs"
proof (induction its arbitrary: fs)
  case Nil
  then show ?case by (simp add: append_lines_Nil)
next
  case (Cons it its)
  from Cons.prems(1) have c: "complete it"
    by (auto simp: complete_def split: item.splits option.splits)
  then obtain n e t where it: "it = Obj (Some n) (Some e) (Some t)"
    and r: "rec_of it = \<lparr>func_name = n, energy_j = e, elapsed_ns = t\<rparr>"
    using complete_rec_of by blast
  let ?fs1 = "writerow p (detail_row u (rec_of it)) fs"
  from Cons.prems(1) have w: "write_details p u its ?fs1 = (Inr x, fs')"
    unfolding r by (simp add: it)
  have "?fs1 p \<noteq> None"
    by (simp add: writerow_append_lines append_lines_same)
  from Cons.IH [OF w this] c show ?case
    by (simp add: writerow_append_lines append_lines_append_lines)
qed

lemma persist_result_Inr:
  fixes fs :: "('f::{zero,plus}) files"
  assumes "persist_result out metric_keys fs result = (Inr u, fs')"
    and "fs (profiles_file out) \<noteq> None" and "fs (detailed_profiles_file out) \<noteq> None"
  shows "fs' = append_lines (detailed_profiles_file out) (detail_rows result)
                 (append_lines (profiles_file out) (summary_rows result)
                    (append_lines out [metrics_row metric_keys result] fs)) \<and>
         list_all complete (items_of result)"
proof -
  obtain its where it: "iter_profiles (dict_get_or result ''function_profiles'' (PItems [])) = Inr its"
    using assms(1) by (auto simp: persist_result_def Let_def split: sum.splits)
  then have its: "its = items_of result" by (rule iter_profiles_items_of)
  obtain rs where ag: "agg_inputs its = Inr rs"
    using assms(1) it by (auto simp: persist_result_def Let_def split: sum.splits)
  then have rs: "rs = records_of result"
    unfolding records_of_def its [symmetric] by (rule agg_inputs_Inr)
  let ?fs1 = "append_lines out [metrics_row metric_keys result] fs"
  have 1: "?fs1 (profiles_file out) \<noteq> None"
    using assms(2) by (simp add: append_lines_other paths_distinct)
  let ?fs2 = "append_lines (profiles_file out) (summary_rows result) ?fs1"
  have 2: "?fs2 (detailed_profiles_file out) \<noteq> None"
    using assms(3) by (simp add: append_lines_other paths_distinct)
  have f2: "fold (\<lambda>nd. writerow (profiles_file out) (summary_row (run_uuid_of result) nd))
      (aggregate rs) (writerow out (metrics_row metric_keys result) fs) = ?fs2"
    unfolding fold_writerow [where fs = "writerow out (metrics_row metric_keys result) fs"
        and p = "profiles_file out", OF 1 [folded writerow_append_lines]]
    unfolding writerow_append_lines rs summary_rows_def [symmetric] ..
  from assms(1) it ag have "write_details (detailed_profiles_file out) (run_uuid_of result) its ?fs2 =
      (Inr u, fs')"
    by (simp add: persist_result_def Let_def run_uuid_of_def [symmetric] f2)
  from write_details_Inr [OF this 2] show ?thesis
    by (simp add: its detail_rows_def records_of_def)
qed

lemma tables_after_exists:
  "fs p \<noteq> None \<Longrightarrow> tables_after out ks rs fs p \<noteq> None"
  by (simp add: tables_after_def append_lines_def)

lemma tables_after_Cons:
  "tables_after out ks rest (tables_after out ks [r] fs) = tables_after out ks (r # rest) fs"
  using paths_distinct [of out]
  by (auto simp: tables_after_def append_lines_def lines_of_def fun_eq_iff)

lemma tables_after_Nil:
  "fs out \<noteq> None \<Longrightarrow> fs (profiles_file out) \<noteq> None \<Longrightarrow>
   fs (detailed_profiles_file out) \<noteq> None \<Longrightarrow> tables_after out ks [] fs = fs"
  by (auto simp: tables_after_def append_lines_def lines_of_def fun_eq_iff)

lemma persist_all_Inr:
  fixes fs :: "('f::{zero,plus}) files"
  assumes "persist_all out ks results fs = (Inr u, fs')"
    and "fs out \<noteq> None" and "fs (profiles_file out) \<noteq> None"
    and "fs (detailed_profiles_file out) \<noteq> None"
  shows "fs' = tables_after out ks results fs \<and>
         (\<forall>r \<in> set results. list_all complete (items_of r))"
  using assms
proof (induction results arbitrary: fs)
  case Nil
  then show ?case by (simp add: tables_after_Nil)
next
  case (Cons r rest)
  from Cons.prems(1) obtain v fs1 where
    1: "persist_result out ks fs r = (Inr v, fs1)"
    and 2: "persist_all out ks rest fs1 = (Inr u, fs')"
    by (auto split: prod.splits sum.splits)
  from persist_result_Inr [OF 1 Cons.prems(3,4)]
  have fs1: "fs1 = tables_after out ks [r] fs" and c: "list_all complete (items_of r)"
    by (simp_all add: tables_after_def)
  have "fs' = tables_after out ks rest fs1 \<and> (\<forall>r \<in> set rest. list_all complete (items_of r))"
    using 2 Cons.prems(2,3,4) unfolding fs1
    by (intro Cons.IH) (simp_all add: tables_after_exists)
  with c show ?case by (simp add: fs1 tables_after_Cons)
qed

lemma headers_written:
  "write_header (fs (detailed_profiles_file out) \<noteq> None) (detailed_profiles_file out) detailed_header
     (write_header (fs (profiles_file out) \<noteq> None) (profiles_file out) profiles_header
        (write_header (fs out \<noteq> None) out ks
           (open_dest (detailed_profiles_file out)
              (open_dest (profiles_file out) (open_dest out fs))))) =
   with_headers out ks fs"
  using paths_distinct [of out]
  by (auto simp: write_header_def open_dest_def writerow_def with_headers_def table_start_def
      fun_eq_iff split: option.splits)

lemma persist_Inr:
  fixes fs :: "('f::{zero,plus}) files"
  assumes "persist out results fs = (Inr u, fs')"
  shows "\<exists>ks. metric_keys_of (hd results) = Inr ks \<and>
              fs' = tables_after out ks results (with_headers out ks fs) \<and>
              (\<forall>r \<in> set results. list_all complete (items_of r))"
proof -
  from assms obtain ks where ks: "metric_keys_of (hd results) = Inr ks"
    by (auto simp: persist_def Let_def split: sum.splits)
  have p: "persist_all out ks results (with_headers out ks fs) = (Inr u, fs')"
    using assms ks
    unfolding persist_def Let_def headers_written [unfolded profiles_header_def detailed_header_def]
    by simp
  have "fs' = tables_after out ks results (with_headers out ks fs) \<and>
      (\<forall>r \<in> set results. list_all complete (items_of r))"
    using p by (rule persist_all_Inr) (simp_all add: with_headers_def)
  with ks show ?thesis by blast
qed

lemma lines_of_tables_after:
  "lines_of (tables_after out ks rs (with_headers out ks fs)) out =
     table_start ks (fs out) @ map (metrics_row ks) rs"
  "lines_of (tables_after out ks rs (with_headers out ks fs)) (profiles_file out) =
     table_start profiles_header (fs (profiles_file out)) @ concat (map summary_rows rs)"
  "lines_of (tables_after out ks rs (with_headers out ks fs)) (detailed_profiles_file out) =
     table_start detailed_header (fs (detailed_profiles_file out)) @ concat (map detail_rows rs)"
  using paths_distinct [of out]
  by (simp_all add: tables_after_def lines_of_append_lines) (simp_all add: lines_of_def with_headers_def)

lemma tables_after_elsewhere:
  "p \<noteq> out \<Longrightarrow> p \<noteq> profiles_file out \<Longrightarrow> p \<noteq> detailed_profiles_file out \<Longrightarrow>
   tables_after out ks rs (with_headers out ks fs) p = fs p"
  by (simp add: tables_after_def append_lines_def with_headers_def)

lemma collect_runs_files:
  "collect_runs n xp uuid4 acc s = Some (r, s1) \<Longrightarrow> files s1 = files s"
proof (induction n arbitrary: acc s)
  case 0
  then show ?case by simp
next
  case (Suc n)
  show ?case
  proof (cases "exp_run xp (lab s)")
    case None
    with Suc.prems show ?thesis by simp
  next
    case (Some a)
    obtain o1 w where a: "a = (o1, w)" by (cases a)
    show ?thesis
    proof (cases o1)
      case (Inl e)
      with Some a Suc.prems show ?thesis by auto
    next
      case (Inr d)
      with Some a Suc.prems have "collect_runs n xp uuid4
          (acc @ [dict_set ''run_uuid'' (PStr (uuid4 (uuid_calls s))) d])
          (s\<lparr>lab := w, uuid_calls := Suc (uuid_calls s)\<rparr>) = Some (r, s1)"
        by simp
      from Suc.IH [OF this] show ?thesis by simp
    qed
  qed
qed

lemma run_uuid_of_dict_set: "run_uuid_of (dict_set ''run_uuid'' v d) = v"
  by (simp add: run_uuid_of_def dict_get_def dict_get_or_def dict_set_def update_conv')

lemma items_of_dict_set: "items_of (dict_set ''run_uuid'' v d) = items_of d"
  by (simp add: items_of_def dict_get_or_def dict_set_def update_conv')

lemma collect_runs_Inr:
  "collect_runs n xp uuid4 acc s = Some (Inr rs, s1) \<Longrightarrow>
   length rs = length acc + n \<and>
   map run_uuid_of rs =
     map run_uuid_of acc @ map (\<lambda>i. PStr (uuid4 i)) [uuid_calls s..<uuid_calls s + n]"
proof (induction n arbitrary: acc s)
  case 0
  then show ?case by simp
next
  case (Suc n)
  from Suc.prems obtain d w where
    r: "exp_run xp (lab s) = Some (Inr d, w)"
    and c: "collect_runs n xp uuid4
        (acc @ [dict_set ''run_uuid'' (PStr (uuid4 (uuid_calls s))) d])
        (s\<lparr>lab := w, uuid_calls := Suc (uuid_calls s)\<rparr>) = Some (Inr rs, s1)"
    by (auto split: option.splits prod.splits sum.splits)
  have u: "[uuid_calls s..<uuid_calls s + Suc n] =
      uuid_calls s # [Suc (uuid_calls s)..<Suc (uuid_calls s) + n]"
    by (simp add: upt_conv_Cons del: upt_Suc)
  from Suc.IH [OF c] show ?case
    unfolding u by (simp add: run_uuid_of_dict_set del: upt_Suc)
qed

lemma collect_runs_raises:
  "k < n \<Longrightarrow> lab_after xp k (lab s) = Some wk \<Longrightarrow> exp_run xp wk = Some (Inl exc, w') \<Longrightarrow>
   \<exists>s1. collect_runs n xp uuid4 acc s = Some (Inl exc, s1) \<and> files s1 = files s"
proof (induction n arbitrary: k acc s)
  case 0
  then show ?case by simp
next
  case (Suc n)
  show ?case
  proof (cases k)
    case 0
    with Suc.prems show ?thesis by simp
  next
    case (Suc j)
    with Suc.prems(2) obtain d w1 where
      r: "exp_run xp (lab s) = Some (Inr d, w1)" and l: "lab_after xp j w1 = Some wk"
      by (auto split: option.splits prod.splits sum.splits)
    let ?s = "s\<lparr>lab := w1, uuid_calls := Suc (uuid_calls s)\<rparr>"
    from Suc.prems(1) Suc have "j < n" by simp
    moreover from l have "lab_after xp j (lab ?s) = Some wk" by simp
    ultimately have "\<exists>s1. collect_runs n xp uuid4
        (acc @ [dict_set ''run_uuid'' (PStr (uuid4 (uuid_calls s))) d]) ?s = Some (Inl exc, s1) \<and>
        files s1 = files ?s"
      using Suc.prems(3) by (rule Suc.IH)
    with r show ?thesis by simp
  qed
qed

section \<open>A trial that fails\<close>

lemma Experiment_run_raises:
  assumes "workload (clear (remove_raises env)
      (s\<lparr>environ := Some (path_join (work_dir cfg) ''profiles'')\<rparr>)) = Some (Inl exc, s3)"
  shows "\<exists>s'. Experiment_run ops cfg workload env s =
      Some (Inl (if measure_total_run cfg
                 then (case EnergySensor_exit ops (run_warn env) (run_rapl env) of
                         Inl w \<Rightarrow> WhileHandling w exc | Inr m \<Rightarrow> exc)
                 else exc), s')"
  using assms by (auto simp: Experiment_run_def Let_def split: sum.splits)

lemma observable_exit:
  "observable exc (if b then (case x of Inl w \<Rightarrow> WhileHandling w exc | Inr m \<Rightarrow> exc) else exc)"
  by (simp add: observable_def split: sum.splits)

lemma run_experiment_raises:
  assumes "exp_setup xp (lab s) = Some (Inr u, w0)" and "k < nat runs"
    and "lab_after xp k w0 = Some wk" and "exp_run xp wk = Some (Inl e, w')"
  shows "\<exists>s'. run_experiment xp runs uuid4 s = Some (Inl e, s') \<and> files s' = files s"
proof -
  have "lab_after xp k (lab (s\<lparr>lab := w0\<rparr>)) = Some wk"
    using assms(3) by simp
  from collect_runs_raises [OF assms(2) this assms(4)]
  obtain s1 where "collect_runs (nat runs) xp uuid4 [] (s\<lparr>lab := w0\<rparr>) = Some (Inl e, s1)"
    and "files s1 = files (s\<lparr>lab := w0\<rparr>)"
    by blast
  with assms(1) show ?thesis by (simp add: run_experiment_def)
qed

text \<open>
  Claim C5. \<^verbatim>\<open>run_experiment\<close> is called on an experiment object built on
  \<^verbatim>\<open>Experiment.run\<close>, with a trial count above \<open>k\<close>; \<^verbatim>\<open>setup\<close> returns and the
  trials before trial \<open>k\<close> return. If the workload of trial \<open>k\<close>, run on the cleared store with
  the shared directory configured, raises \<open>exc\<close>, then \<^verbatim>\<open>run_experiment\<close> raises: the
  exception that reaches its caller is \<open>exc\<close> itself, except when the total run is measured and
  the exit of the capture raises a warning turned into an error, in which case it is that
  warning with \<open>exc\<close> as its context. In both cases the failure is observable, and the
  destination files are exactly what they were before the call: no row of the failing trial,
  nor of any other, is written to any table.
\<close>

theorem run_experiment_workload_raises:
  fixes ops :: "('f::{zero,plus,minus}) float_ops"
    and workload :: "nat \<Rightarrow> 'f world \<Rightarrow> ((py_exc + 'r) \<times> 'f world) option"
  assumes "xp = Experiment_object ops out cfg prepare workload envs"
    and "prepare (store (lab s)) = Some (Inr (), st0)"
    and "k < nat runs"
    and "lab_after xp k ((lab s)\<lparr>store := st0\<rparr>) = Some lk"
    and "workload (trial_no lk)
           (clear (remove_raises (envs (trial_no lk)))
              ((store lk)\<lparr>environ := Some (path_join (work_dir cfg) ''profiles'')\<rparr>)) =
         Some (Inl exc, s3)"
  shows "\<exists>e s'. run_experiment xp runs uuid4 s = Some (Inl e, s') \<and>
                e = (if measure_total_run cfg
                     then (case EnergySensor_exit ops (run_warn (envs (trial_no lk)))
                                  (run_rapl (envs (trial_no lk))) of
                             Inl w \<Rightarrow> WhileHandling w exc | Inr m \<Rightarrow> exc)
                     else exc) \<and>
                observable exc e \<and> files s' = files s"
proof -
  let ?e = "if measure_total_run cfg
      then (case EnergySensor_exit ops (run_warn (envs (trial_no lk)))
                   (run_rapl (envs (trial_no lk))) of
              Inl w \<Rightarrow> WhileHandling w exc | Inr m \<Rightarrow> exc)
      else exc"
  from Experiment_run_raises [where workload = "workload (trial_no lk)"
      and env = "envs (trial_no lk)" and s = "store lk" and cfg = cfg and ops = ops, OF assms(5)]
  obtain st' where r: "Experiment_run ops cfg (workload (trial_no lk)) (envs (trial_no lk))
      (store lk) = Some (Inl ?e, st')"
    by blast
  have o: "observable exc ?e"
    by (rule observable_exit)
  have 1: "exp_setup xp (lab s) = Some (Inr (), (lab s)\<lparr>store := st0\<rparr>)"
    using assms(2) by (simp add: assms(1) Experiment_object_def)
  have 2: "exp_run xp lk = Some (Inl ?e, \<lparr>store = st', trial_no = Suc (trial_no lk)\<rparr>)"
    using r by (simp add: assms(1) Experiment_object_def)
  from run_experiment_raises [OF 1 assms(3,4) 2] o show ?thesis by blast
qed

lemma Experiment_run_returns:
  assumes "workload (clear (remove_raises env)
      (s\<lparr>environ := Some (path_join (work_dir cfg) ''profiles'')\<rparr>)) = Some (Inr v, s3)"
    and "measure_total_run cfg"
    and "EnergySensor_exit ops (run_warn env) (run_rapl env) = Inr m"
    and "decodable (visited (show_warning (class_name cfg) m s3))"
  shows "\<exists>d s'. Experiment_run ops cfg workload env s = Some (Inr d, s')"
  using assms by (simp add: Experiment_run_def Let_def get_records_returns)

lemma visited_empty_dirs: "(\<And>d. dirs s d = []) \<Longrightarrow> visited s = []"
  by (simp add: visited_def glob_json_def)

lemma ex_first_trial:
  "\<exists>lk. lab_after ex_experiment (Suc 0) \<lparr>store = ex_world, trial_no = 0\<rparr> = Some lk \<and>
        trial_no lk = Suc 0"
proof -
  let ?s3 = "clear (remove_raises ex_trial_env)
      (ex_world\<lparr>environ := Some (path_join (work_dir ex_cfg) ''profiles'')\<rparr>)"
  let ?m = "\<lparr>meas_energy_j = 4 :: real, zero_warning = False\<rparr>"
  have w: "ex_workload 0 ?s3 = Some (Inr (), ?s3)"
    by (simp add: ex_workload_def)
  have x: "EnergySensor_exit ex_ops (run_warn ex_trial_env) (run_rapl ex_trial_env) = Inr ?m"
    by (simp add: EnergySensor_exit_def ex_trial_env_def ex_ops_def py_sum_def or_empty_def)
  have "visited (show_warning (class_name ex_cfg) ?m ?s3) = []"
    by (rule visited_empty_dirs)
      (simp add: show_warning_frame clear_eq survivors_def ex_world_def)
  then have d: "decodable (visited (show_warning (class_name ex_cfg) ?m ?s3))"
    by (simp add: decodable_def)
  have "measure_total_run ex_cfg"
    by (simp add: ex_cfg_def)
  from Experiment_run_returns [where workload = "ex_workload 0" and env = ex_trial_env
      and s = ex_world and cfg = ex_cfg and ops = ex_ops, OF w this x d]
  obtain d s' where "Experiment_run ex_ops ex_cfg (ex_workload 0) ex_trial_env ex_world =
      Some (Inr d, s')"
    by blast
  then show ?thesis
    by (simp add: ex_experiment_def Experiment_object_def)
qed

theorem run_experiment_workload_raises_witness:
  "ex_setup (store (lab ex_lab_sys)) = Some (Inr (), ex_world) \<and>
   Suc 0 < nat 3 \<and>
   lab_after ex_experiment (Suc 0) ((lab ex_lab_sys)\<lparr>store := ex_world\<rparr>) \<noteq> None \<and>
   trial_no (the (lab_after ex_experiment (Suc 0) ((lab ex_lab_sys)\<lparr>store := ex_world\<rparr>))) = Suc 0 \<and>
   (\<exists>s'. run_experiment ex_experiment 3 ex_uuid4 ex_lab_sys =
           Some (Inl (Raised ''disk full''), s') \<and> files s' = files ex_lab_sys)"
proof -
  have l: "(lab ex_lab_sys)\<lparr>store := ex_world\<rparr> = \<lparr>store = ex_world, trial_no = 0\<rparr>"
    by (simp add: ex_lab_sys_def)
  from ex_first_trial obtain lk where
    lk: "lab_after ex_experiment (Suc 0) ((lab ex_lab_sys)\<lparr>store := ex_world\<rparr>) = Some lk"
    and t: "trial_no lk = Suc 0"
    unfolding l by blast
  have s: "ex_setup (store (lab ex_lab_sys)) = Some (Inr (), ex_world)"
    by (simp add: ex_setup_def ex_lab_sys_def)
  have k: "Suc 0 < nat 3"
    by simp
  let ?s3 = "clear (remove_raises ex_trial_env)
      ((store lk)\<lparr>environ := Some (path_join (work_dir ex_cfg) ''profiles'')\<rparr>)"
  have w: "ex_workload (trial_no lk) ?s3 = Some (Inl (Raised ''disk full''), ?s3)"
    by (simp add: t ex_workload_def)
  note r = run_experiment_workload_raises [where xp = ex_experiment and ops = ex_ops
      and out = "''results.csv''" and cfg = ex_cfg and prepare = ex_setup
      and workload = ex_workload and envs = "\<lambda>_. ex_trial_env" and s = ex_lab_sys
      and ?st0.0 = ex_world and k = "Suc 0" and runs = 3 and lk = lk
      and exc = "Raised ''disk full''" and ?s3.0 = ?s3 and ?uuid4.0 = ex_uuid4,
      OF ex_experiment_def s k lk w]
  have x: "EnergySensor_exit ex_ops (run_warn ex_trial_env) (run_rapl ex_trial_env) =
      Inr \<lparr>meas_energy_j = 4, zero_warning = False\<rparr>"
    by (simp add: EnergySensor_exit_def ex_trial_env_def ex_ops_def py_sum_def or_empty_def)
  from r have "\<exists>s'. run_experiment ex_experiment 3 ex_uuid4 ex_lab_sys =
      Some (Inl (Raised ''disk full''), s') \<and> files s' = files ex_lab_sys"
    unfolding x by auto
  with s k lk t show ?thesis by simp
qed


end
